theory Spec2Isabelle
  imports Complex_Main
begin

section \<open>JavaScript values\<close>

text \<open>
  The numbers of \<^verbatim>\<open>src/surface/volume.js\<close> are JavaScript numbers, and several of its
  tests (\<^verbatim>\<open>isNaN\<close>, \<^verbatim>\<open>=== undefined\<close>, \<^verbatim>\<open>|| 1\<close>) depend on the values that are
  not finite numbers. A value is therefore \<^verbatim>\<open>undefined\<close>, \<^verbatim>\<open>NaN\<close>, one of the two
  infinities, or a finite number. Finite numbers are the reals: rounding to 32 or 64 bits
  and the sign of zero are not modelled. A \<^verbatim>\<open>Float32Array\<close> is a list of values; it never
  holds \<^verbatim>\<open>undefined\<close> (a store converts it to \<^verbatim>\<open>NaN\<close>, see \<open>f32\<close>).
\<close>

datatype jsval = Undefined | NaN | PInf | NInf | Fin real

text \<open>\<^verbatim>\<open>isNaN(v)\<close> converts its argument to a number first: \<^verbatim>\<open>undefined\<close> becomes \<^verbatim>\<open>NaN\<close>.\<close>

fun isNaN :: "jsval \<Rightarrow> bool" where
  "isNaN Undefined = True"
| "isNaN NaN = True"
| "isNaN _ = False"

text \<open>Truthiness, as \<^verbatim>\<open>v || d\<close> and \<^verbatim>\<open>if( v )\<close> test it.\<close>

fun truthy :: "jsval \<Rightarrow> bool" where
  "truthy Undefined = False"
| "truthy NaN = False"
| "truthy (Fin a) = (a \<noteq> 0)"
| "truthy _ = True"

text \<open>\<^verbatim>\<open>a === b\<close> on these values: \<^verbatim>\<open>NaN\<close> is not equal to itself.\<close>

definition strict_eq :: "jsval \<Rightarrow> jsval \<Rightarrow> bool" where
  "strict_eq a b = (a = b \<and> a \<noteq> NaN)"

text \<open>
  \<^verbatim>\<open>a == b\<close>: on numbers and \<^verbatim>\<open>undefined\<close> it agrees with \<^verbatim>\<open>===\<close> (\<^verbatim>\<open>undefined\<close> is
  loosely equal to \<^verbatim>\<open>undefined\<close> and \<^verbatim>\<open>null\<close> only, and there is no \<^verbatim>\<open>null\<close> here).
\<close>

definition loose_eq :: "jsval \<Rightarrow> jsval \<Rightarrow> bool" where
  "loose_eq a b = strict_eq a b"

instantiation jsval :: "{plus, minus, times, uminus, inverse}"
begin

fun uminus_jsval :: "jsval \<Rightarrow> jsval" where
  "uminus_jsval (Fin a) = Fin (- a)"
| "uminus_jsval PInf = NInf"
| "uminus_jsval NInf = PInf"
| "uminus_jsval _ = NaN"

fun plus_jsval :: "jsval \<Rightarrow> jsval \<Rightarrow> jsval" where
  "plus_jsval (Fin a) (Fin b) = Fin (a + b)"
| "plus_jsval (Fin a) PInf = PInf"
| "plus_jsval (Fin a) NInf = NInf"
| "plus_jsval PInf (Fin b) = PInf"
| "plus_jsval PInf PInf = PInf"
| "plus_jsval NInf (Fin b) = NInf"
| "plus_jsval NInf NInf = NInf"
| "plus_jsval _ _ = NaN"

definition minus_jsval :: "jsval \<Rightarrow> jsval \<Rightarrow> jsval" where
  "minus_jsval a b = a + (- b)"

fun times_jsval :: "jsval \<Rightarrow> jsval \<Rightarrow> jsval" where
  "times_jsval (Fin a) (Fin b) = Fin (a * b)"
| "times_jsval (Fin a) PInf = (if a = 0 then NaN else if 0 < a then PInf else NInf)"
| "times_jsval (Fin a) NInf = (if a = 0 then NaN else if 0 < a then NInf else PInf)"
| "times_jsval PInf (Fin b) = (if b = 0 then NaN else if 0 < b then PInf else NInf)"
| "times_jsval NInf (Fin b) = (if b = 0 then NaN else if 0 < b then NInf else PInf)"
| "times_jsval PInf PInf = PInf"
| "times_jsval PInf NInf = NInf"
| "times_jsval NInf PInf = NInf"
| "times_jsval NInf NInf = PInf"
| "times_jsval _ _ = NaN"

fun divide_jsval :: "jsval \<Rightarrow> jsval \<Rightarrow> jsval" where
  "divide_jsval (Fin a) (Fin b) =
     (if b = 0 then (if a = 0 then NaN else if 0 < a then PInf else NInf)
      else Fin (a / b))"
| "divide_jsval (Fin a) PInf = Fin 0"
| "divide_jsval (Fin a) NInf = Fin 0"
| "divide_jsval PInf (Fin b) = (if 0 \<le> b then PInf else NInf)"
| "divide_jsval NInf (Fin b) = (if 0 \<le> b then NInf else PInf)"
| "divide_jsval _ _ = NaN"

definition inverse_jsval :: "jsval \<Rightarrow> jsval" where
  "inverse_jsval a = divide (Fin 1) a"

instance ..

end

text \<open>\<^verbatim>\<open>a <= b\<close> and \<^verbatim>\<open>a < b\<close>: false as soon as one side is \<^verbatim>\<open>NaN\<close> or \<^verbatim>\<open>undefined\<close>.\<close>

fun js_le :: "jsval \<Rightarrow> jsval \<Rightarrow> bool" where
  "js_le (Fin a) (Fin b) = (a \<le> b)"
| "js_le (Fin a) PInf = True"
| "js_le NInf (Fin b) = True"
| "js_le NInf NInf = True"
| "js_le NInf PInf = True"
| "js_le PInf PInf = True"
| "js_le _ _ = False"

fun js_lt :: "jsval \<Rightarrow> jsval \<Rightarrow> bool" where
  "js_lt (Fin a) (Fin b) = (a < b)"
| "js_lt (Fin a) PInf = True"
| "js_lt NInf (Fin b) = True"
| "js_lt NInf PInf = True"
| "js_lt _ _ = False"

text \<open>\<^verbatim>\<open>Math.min\<close>, \<^verbatim>\<open>Math.max\<close> and \<^verbatim>\<open>Math.sqrt\<close>.\<close>

definition Math_min :: "jsval \<Rightarrow> jsval \<Rightarrow> jsval" where
  "Math_min a b = (if isNaN a \<or> isNaN b then NaN else if js_le a b then a else b)"

definition Math_max :: "jsval \<Rightarrow> jsval \<Rightarrow> jsval" where
  "Math_max a b = (if isNaN a \<or> isNaN b then NaN else if js_le a b then b else a)"

fun Math_sqrt :: "jsval \<Rightarrow> jsval" where
  "Math_sqrt (Fin a) = (if a < 0 then NaN else Fin (sqrt a))"
| "Math_sqrt PInf = PInf"
| "Math_sqrt _ = NaN"

text \<open>What a store into a \<^verbatim>\<open>Float32Array\<close> keeps of a value.\<close>

fun f32 :: "jsval \<Rightarrow> jsval" where
  "f32 Undefined = NaN"
| "f32 v = v"

text \<open>\<^verbatim>\<open>new Float32Array( n )\<close>: \<open>n\<close> zeros.\<close>

definition Float32Array :: "nat \<Rightarrow> jsval list" where
  "Float32Array n = replicate n (Fin 0)"

text \<open>\<^verbatim>\<open>a[ i ]\<close>: \<^verbatim>\<open>undefined\<close> out of range.\<close>

definition js_at :: "jsval list \<Rightarrow> nat \<Rightarrow> jsval" where
  "js_at a i = (if i < length a then a ! i else Undefined)"

section \<open>The collaborators of a volume\<close>

text \<open>
  Modelled from the spec: \<^verbatim>\<open>GidPool\<close> and \<^verbatim>\<open>Log\<close> (\<^verbatim>\<open>../globals.js\<close>) are not part
  of the sources at hand. The spec has the volume notify a registry of an object's
  addition, update and removal and emit a warning; a function that does so returns the
  calls it made, in order.
\<close>

datatype event =
    GidPool_addObject
  | GidPool_updateObject bool
  | GidPool_removeObject
  | Log_warn string

text \<open>
  Modelled from the spec: \<^verbatim>\<open>WorkerPool\<close> (\<^verbatim>\<open>../worker/worker-pool.js\<close>) is not part of
  the sources at hand. The spec gives it a fixed size, workers handed out in turn, a count
  of the messages posted to each worker, and an explicit release (\<^verbatim>\<open>terminate\<close>).
\<close>

record workerPool =
  pool_name :: string
  pool_size :: nat
  pool_postCount :: "nat list"
  pool_next :: nat
  pool_terminated :: bool

definition WorkerPool :: "string \<Rightarrow> nat \<Rightarrow> workerPool" where
  "WorkerPool nm n =
     \<lparr>pool_name = nm, pool_size = n, pool_postCount = replicate n 0, pool_next = 0,
      pool_terminated = False\<rparr>"

definition terminate :: "workerPool \<Rightarrow> workerPool" where
  "terminate p = p\<lparr>pool_terminated := True\<rparr>"

text \<open>The optional \<^verbatim>\<open>header\<close> of a volume; \<^verbatim>\<open>filterData\<close> reads two of its entries.\<close>

record header =
  DMEAN :: jsval
  ARMS :: jsval

text \<open>The \<^verbatim>\<open>THREE.Vector3\<close> and \<^verbatim>\<open>THREE.Box3\<close> objects a volume owns.\<close>

record vector3 =
  vx :: jsval
  vy :: jsval
  vz :: jsval

record box3 =
  bmin :: vector3
  bmax :: vector3

definition Vector3 :: "jsval \<Rightarrow> jsval \<Rightarrow> jsval \<Rightarrow> vector3" where
  "Vector3 a b c = \<lparr>vx = a, vy = b, vz = c\<rparr>"

text \<open>\<^verbatim>\<open>new THREE.Box3()\<close> is the empty box: its minimum is above its maximum.\<close>

definition makeEmpty :: box3 where
  "makeEmpty = \<lparr>bmin = Vector3 PInf PInf PInf, bmax = Vector3 NInf NInf NInf\<rparr>"

text \<open>\<^verbatim>\<open>new THREE.Matrix4()\<close> and \<^verbatim>\<open>new THREE.Matrix3()\<close>: the element arrays of the identity.\<close>

definition Matrix4 :: "jsval list" where
  "Matrix4 = map Fin [1, 0, 0, 0,  0, 1, 0, 0,  0, 0, 1, 0,  0, 0, 0, 1]"

definition Matrix3 :: "jsval list" where
  "Matrix3 = map Fin [1, 0, 0,  0, 1, 0,  0, 0, 1]"

text \<open>
  The instance of \<^verbatim>\<open>MarchingCubes\<close> that \<^verbatim>\<open>getSurface\<close> keeps in \<^verbatim>\<open>this.mc\<close>: what
  it was constructed from.
\<close>

record marchingCubes =
  mc_data :: "jsval list"
  mc_nx :: nat
  mc_ny :: nat
  mc_nz :: nat
  mc_atomindex :: "int list option"

section \<open>The operations of THREE that the volume calls\<close>

text \<open>
  Modelled from the spec: the THREE library (\<^verbatim>\<open>Vector3\<close>, \<^verbatim>\<open>Box3\<close>, \<^verbatim>\<open>Matrix3\<close>,
  \<^verbatim>\<open>Matrix4\<close>) is a global of the program and not part of the sources at hand. The spec
  describes the transform as a 4x4 affine matrix, the bounding box as the box of the 8
  transformed grid corners with its centre, and the inverse transform as the exact inverse.
  The element array of a matrix is column-major: entry (row \<open>r\<close>, column \<open>c\<close>) of a
  \<^verbatim>\<open>Matrix4\<close> is element \<open>4 * c + r\<close>, of a \<^verbatim>\<open>Matrix3\<close> element \<open>3 * c + r\<close>.
\<close>

definition Vector3_toArray :: "vector3 \<Rightarrow> jsval list" where
  "Vector3_toArray p = [vx p, vy p, vz p]"

definition Vector3_fromArray :: "jsval list \<Rightarrow> vector3" where
  "Vector3_fromArray a = Vector3 (js_at a 0) (js_at a 1) (js_at a 2)"

definition crossVectors :: "vector3 \<Rightarrow> vector3 \<Rightarrow> vector3" where
  "crossVectors a b =
     Vector3 (vy a * vz b - vz a * vy b)
             (vz a * vx b - vx a * vz b)
             (vx a * vy b - vy a * vx b)"

text \<open>\<^verbatim>\<open>Vector3.applyMatrix4\<close>, for an affine matrix.\<close>

definition applyMatrix4 :: "jsval list \<Rightarrow> vector3 \<Rightarrow> vector3" where
  "applyMatrix4 e p =
     Vector3 (js_at e 0 * vx p + js_at e 4 * vy p + js_at e 8 * vz p + js_at e 12)
             (js_at e 1 * vx p + js_at e 5 * vy p + js_at e 9 * vz p + js_at e 13)
             (js_at e 2 * vx p + js_at e 6 * vy p + js_at e 10 * vz p + js_at e 14)"

definition applyMatrix3 :: "jsval list \<Rightarrow> vector3 \<Rightarrow> vector3" where
  "applyMatrix3 e p =
     Vector3 (js_at e 0 * vx p + js_at e 3 * vy p + js_at e 6 * vz p)
             (js_at e 1 * vx p + js_at e 4 * vy p + js_at e 7 * vz p)
             (js_at e 2 * vx p + js_at e 5 * vy p + js_at e 8 * vz p)"

text \<open>
  \<^verbatim>\<open>applyToVector3Array\<close> of a matrix: every three consecutive elements of the array are
  read as a vector, transformed and stored back. The first argument is the transformation
  of one vector.
\<close>

fun applyToVector3Array :: "(vector3 \<Rightarrow> vector3) \<Rightarrow> jsval list \<Rightarrow> jsval list" where
  "applyToVector3Array f (a # b # c # rest) =
     map f32 (Vector3_toArray (f (Vector3 a b c))) @ applyToVector3Array f rest"
| "applyToVector3Array f [a, b] =
     map f32 (take 2 (Vector3_toArray (f (Vector3 a b Undefined))))"
| "applyToVector3Array f [a] =
     map f32 (take 1 (Vector3_toArray (f (Vector3 a Undefined Undefined))))"
| "applyToVector3Array f [] = []"

definition vector_min :: "vector3 \<Rightarrow> vector3 \<Rightarrow> vector3" where
  "vector_min a b = Vector3 (Math_min (vx a) (vx b)) (Math_min (vy a) (vy b)) (Math_min (vz a) (vz b))"

definition vector_max :: "vector3 \<Rightarrow> vector3 \<Rightarrow> vector3" where
  "vector_max a b = Vector3 (Math_max (vx a) (vx b)) (Math_max (vy a) (vy b)) (Math_max (vz a) (vz b))"

definition expandByPoint :: "box3 \<Rightarrow> vector3 \<Rightarrow> box3" where
  "expandByPoint b p = \<lparr>bmin = vector_min (bmin b) p, bmax = vector_max (bmax b) p\<rparr>"

text \<open>
  \<^verbatim>\<open>Box3.applyMatrix4\<close>: the eight corners of the box are transformed and the box is made
  the smallest one that holds them.
\<close>

definition box_corners :: "box3 \<Rightarrow> vector3 list" where
  "box_corners b =
     [Vector3 (vx (bmin b)) (vy (bmin b)) (vz (bmin b)),
      Vector3 (vx (bmin b)) (vy (bmin b)) (vz (bmax b)),
      Vector3 (vx (bmin b)) (vy (bmax b)) (vz (bmin b)),
      Vector3 (vx (bmin b)) (vy (bmax b)) (vz (bmax b)),
      Vector3 (vx (bmax b)) (vy (bmin b)) (vz (bmin b)),
      Vector3 (vx (bmax b)) (vy (bmin b)) (vz (bmax b)),
      Vector3 (vx (bmax b)) (vy (bmax b)) (vz (bmin b)),
      Vector3 (vx (bmax b)) (vy (bmax b)) (vz (bmax b))]"

definition Box3_applyMatrix4 :: "box3 \<Rightarrow> jsval list \<Rightarrow> box3" where
  "Box3_applyMatrix4 b e = foldl expandByPoint makeEmpty (map (applyMatrix4 e) (box_corners b))"

text \<open>\<^verbatim>\<open>Box3.center\<close>: the midpoint of the box.\<close>

definition Box3_center :: "box3 \<Rightarrow> vector3" where
  "Box3_center b =
     Vector3 ((vx (bmin b) + vx (bmax b)) * Fin (1 / 2))
             ((vy (bmin b) + vy (bmax b)) * Fin (1 / 2))
             ((vz (bmin b) + vz (bmax b)) * Fin (1 / 2))"

definition expandByScalar :: "box3 \<Rightarrow> jsval \<Rightarrow> box3" where
  "expandByScalar b s =
     \<lparr>bmin = Vector3 (vx (bmin b) + (- s)) (vy (bmin b) + (- s)) (vz (bmin b) + (- s)),
      bmax = Vector3 (vx (bmax b) + s) (vy (bmax b) + s) (vz (bmax b) + s)\<rparr>"

fun Math_round :: "jsval \<Rightarrow> jsval" where
  "Math_round (Fin a) = Fin (of_int \<lfloor>a + 1 / 2\<rfloor>)"
| "Math_round Undefined = NaN"
| "Math_round v = v"

definition Vector3_round :: "vector3 \<Rightarrow> vector3" where
  "Vector3_round p = Vector3 (Math_round (vx p)) (Math_round (vy p)) (Math_round (vz p))"

text \<open>
  \<^verbatim>\<open>Box3.set( min, max )\<close> copies the properties \<^verbatim>\<open>x\<close>, \<^verbatim>\<open>y\<close> and \<^verbatim>\<open>z\<close> of its two
  arguments (\<^verbatim>\<open>Vector3.copy\<close>). The program calls it with vectors and, in \<^verbatim>\<open>fromJSON\<close>,
  with arrays: an array has no such property, and reading one gives \<^verbatim>\<open>undefined\<close>.
\<close>

datatype jsobj = Obj_Vector3 vector3 | Obj_Array "jsval list"

fun prop_x :: "jsobj \<Rightarrow> jsval" where
  "prop_x (Obj_Vector3 p) = vx p"
| "prop_x (Obj_Array a) = Undefined"

fun prop_y :: "jsobj \<Rightarrow> jsval" where
  "prop_y (Obj_Vector3 p) = vy p"
| "prop_y (Obj_Array a) = Undefined"

fun prop_z :: "jsobj \<Rightarrow> jsval" where
  "prop_z (Obj_Vector3 p) = vz p"
| "prop_z (Obj_Array a) = Undefined"

definition Vector3_copy :: "jsobj \<Rightarrow> vector3" where
  "Vector3_copy ob = Vector3 (prop_x ob) (prop_y ob) (prop_z ob)"

definition Box3_set :: "jsobj \<Rightarrow> jsobj \<Rightarrow> box3" where
  "Box3_set mn mx = \<lparr>bmin = Vector3_copy mn, bmax = Vector3_copy mx\<rparr>"

text \<open>
  \<^verbatim>\<open>Matrix4.getInverse\<close>: the cofactors of the matrix, transposed and divided by the
  determinant; the identity when the determinant is 0. Determinants and cofactors are
  written once for any entry function \<open>f r c\<close> and any type of numbers, so that the
  same definitions serve for JavaScript values and for the reals.
\<close>

definition skip :: "nat \<Rightarrow> nat \<Rightarrow> nat" where
  "skip i k = (if k < i then k else Suc k)"

definition minor :: "(nat \<Rightarrow> nat \<Rightarrow> 'a) \<Rightarrow> nat \<Rightarrow> nat \<Rightarrow> nat \<Rightarrow> nat \<Rightarrow> 'a" where
  "minor f i j r c = f (skip i r) (skip j c)"

definition signed :: "nat \<Rightarrow> nat \<Rightarrow> 'a::uminus \<Rightarrow> 'a" where
  "signed i j a = (if even (i + j) then a else - a)"

definition det2 :: "(nat \<Rightarrow> nat \<Rightarrow> 'a::{minus,times}) \<Rightarrow> 'a" where
  "det2 f = f 0 0 * f 1 1 - f 0 1 * f 1 0"

definition cofactor3 :: "(nat \<Rightarrow> nat \<Rightarrow> 'a::{minus,times,uminus}) \<Rightarrow> nat \<Rightarrow> nat \<Rightarrow> 'a" where
  "cofactor3 f i j = signed i j (det2 (minor f i j))"

definition det3 :: "(nat \<Rightarrow> nat \<Rightarrow> 'a::{plus,minus,times,uminus}) \<Rightarrow> 'a" where
  "det3 f = f 0 0 * cofactor3 f 0 0 + f 0 1 * cofactor3 f 0 1 + f 0 2 * cofactor3 f 0 2"

definition cofactor4 :: "(nat \<Rightarrow> nat \<Rightarrow> 'a::{plus,minus,times,uminus}) \<Rightarrow> nat \<Rightarrow> nat \<Rightarrow> 'a" where
  "cofactor4 f i j = signed i j (det3 (minor f i j))"

definition det4 :: "(nat \<Rightarrow> nat \<Rightarrow> 'a::{plus,minus,times,uminus}) \<Rightarrow> 'a" where
  "det4 f = f 0 0 * cofactor4 f 0 0 + f 0 1 * cofactor4 f 0 1
          + f 0 2 * cofactor4 f 0 2 + f 0 3 * cofactor4 f 0 3"

definition entry4 :: "jsval list \<Rightarrow> nat \<Rightarrow> nat \<Rightarrow> jsval" where
  "entry4 e r c = js_at e (4 * c + r)"

definition getInverse :: "jsval list \<Rightarrow> jsval list" where
  "getInverse e =
     (let det = det4 (entry4 e)
      in if det = Fin 0 then Matrix4
         else map (\<lambda>k. cofactor4 (entry4 e) (k div 4) (k mod 4) * (Fin 1 / det)) [0..<16])"

section \<open>The volume\<close>

text \<open>
  One field per property of the object. A property the source writes with two leading
  underscores (\<^verbatim>\<open>__data\<close>) has the prefix \<open>uu_\<close> here. A property that is absent or
  deleted is \<open>None\<close>, or \<open>Undefined\<close> where its type is \<open>jsval\<close>. The grid extents
  are natural numbers: \<^verbatim>\<open>nx || 1\<close> sends an absent extent and the extent 0 to 1.
\<close>

record volume =
  name :: string
  path :: string
  matrix :: "jsval list"
  normalMatrix :: "jsval list"
  inverseMatrix :: "jsval list"
  center :: vector3
  boundingBox :: box3
  nx :: nat
  ny :: nat
  nz :: nat
  data :: "jsval list"
  uu_data :: "jsval list"
  dataAtomindex :: "int list option"
  uu_dataAtomindex :: "int list option"
  uu_dataAtomindexBuffer :: "int list option"
  mc :: "marchingCubes option"
  uu_isolevel :: jsval
  uu_smooth :: jsval
  uu_minValue :: jsval
  uu_maxValue :: jsval
  uu_outside :: "bool option"
  dataPosition :: "jsval list option"
  uu_dataPositionBuffer :: "jsval list option"
  uu_dataPosition :: "jsval list option"
  uu_dataBuffer :: "jsval list option"
  uu_dataMin :: jsval
  uu_dataMax :: jsval
  uu_dataMean :: jsval
  uu_dataRms :: jsval
  worker :: "workerPool option"
  workerPool :: "workerPool option"
  header :: "header option"
  uu_box :: "box3 option"

text \<open>\<^verbatim>\<open>n || 1\<close> on a grid extent.\<close>

definition or_one :: "nat option \<Rightarrow> nat" where
  "or_one n = (case n of None \<Rightarrow> 1 | Some k \<Rightarrow> if k = 0 then 1 else k)"

text \<open>\<^verbatim>\<open>outside || false\<close> on a flag that may be absent.\<close>

definition or_false :: "bool option \<Rightarrow> bool" where
  "or_false b = (case b of None \<Rightarrow> False | Some x \<Rightarrow> x)"

definition setDataAtomindex :: "volume \<Rightarrow> int list option \<Rightarrow> volume" where
  "setDataAtomindex v dataAtomindex' =
     v\<lparr>dataAtomindex := dataAtomindex', uu_dataAtomindex := dataAtomindex',
       uu_dataAtomindexBuffer := None\<rparr>"

definition setData ::
  "volume \<Rightarrow> jsval list option \<Rightarrow> nat option \<Rightarrow> nat option \<Rightarrow> nat option \<Rightarrow>
   int list option \<Rightarrow> volume \<times> event list" where
  "setData v data' nx' ny' nz' dataAtomindex' =
     (let v1 = v\<lparr>nx := or_one nx', ny := or_one ny', nz := or_one nz'\<rparr>;
          d = (case data' of None \<Rightarrow> Float32Array 1 | Some a \<Rightarrow> a);
          v2 = v1\<lparr>data := d, uu_data := d\<rparr>;
          v3 = setDataAtomindex v2 dataAtomindex';
          v4 = v3\<lparr>mc := None,
                 uu_isolevel := Undefined, uu_smooth := Undefined,
                 uu_minValue := Undefined, uu_maxValue := Undefined,
                 uu_dataPositionBuffer := None, uu_dataPosition := None, uu_dataBuffer := None,
                 uu_dataMin := Undefined, uu_dataMax := Undefined,
                 uu_dataMean := Undefined, uu_dataRms := Undefined\<rparr>;
          v5 = v4\<lparr>worker := map_option terminate (worker v4)\<rparr>
      in if length (uu_data v5) \<le> 10 ^ 7
         then (v5, [GidPool_updateObject True])
         else (v5, [Log_warn ''Volume too large (>10^7), not adding to GidPool'',
                    GidPool_removeObject]))"

text \<open>
  The object as \<^verbatim>\<open>new Volume\<close> finds it before the constructor's body runs, with the
  two properties the constructor's first lines set.
\<close>

definition blank :: "string \<Rightarrow> string \<Rightarrow> volume" where
  "blank name' path' =
     \<lparr>name = name', path = path',
      matrix = Matrix4, normalMatrix = Matrix3, inverseMatrix = Matrix4,
      center = Vector3 (Fin 0) (Fin 0) (Fin 0), boundingBox = makeEmpty,
      nx = 0, ny = 0, nz = 0, data = [], uu_data = [],
      dataAtomindex = None, uu_dataAtomindex = None, uu_dataAtomindexBuffer = None,
      mc = None, uu_isolevel = Undefined, uu_smooth = Undefined,
      uu_minValue = Undefined, uu_maxValue = Undefined, uu_outside = None,
      dataPosition = None, uu_dataPositionBuffer = None, uu_dataPosition = None,
      uu_dataBuffer = None,
      uu_dataMin = Undefined, uu_dataMax = Undefined,
      uu_dataMean = Undefined, uu_dataRms = Undefined,
      worker = None, workerPool = None, header = None, uu_box = None\<rparr>"

definition Volume ::
  "string \<Rightarrow> string \<Rightarrow> jsval list option \<Rightarrow> nat option \<Rightarrow> nat option \<Rightarrow> nat option \<Rightarrow>
   int list option \<Rightarrow> volume \<times> event list" where
  "Volume name' path' data' nx' ny' nz' dataAtomindex' =
     (let (v, es) = setData (blank name' path') data' nx' ny' nz' dataAtomindex'
      in if length (uu_data v) \<le> 10 ^ 7 then (v, es @ [GidPool_addObject]) else (v, es))"

subsection \<open>Statistics\<close>

text \<open>
  Each getter scans \<^verbatim>\<open>this.__data\<close> once, keeps the result in its cache field and
  returns the cached value afterwards: it returns the value and the volume.
\<close>

definition getDataMin :: "volume \<Rightarrow> jsval \<times> volume" where
  "getDataMin v =
     (if uu_dataMin v = Undefined
      then (let m = foldl Math_min PInf (uu_data v) in (m, v\<lparr>uu_dataMin := m\<rparr>))
      else (uu_dataMin v, v))"

definition getDataMax :: "volume \<Rightarrow> jsval \<times> volume" where
  "getDataMax v =
     (if uu_dataMax v = Undefined
      then (let m = foldl Math_max NInf (uu_data v) in (m, v\<lparr>uu_dataMax := m\<rparr>))
      else (uu_dataMax v, v))"

definition getDataMean :: "volume \<Rightarrow> jsval \<times> volume" where
  "getDataMean v =
     (if uu_dataMean v = Undefined
      then (let n = length (uu_data v);
                total = foldl (\<lambda>s d. s + d) (Fin 0) (uu_data v);
                m = total / Fin (real n)
            in (m, v\<lparr>uu_dataMean := m\<rparr>))
      else (uu_dataMean v, v))"

definition getDataRms :: "volume \<Rightarrow> jsval \<times> volume" where
  "getDataRms v =
     (if uu_dataRms v = Undefined
      then (let n = length (uu_data v);
                sumSq = foldl (\<lambda>s di. s + di * di) (Fin 0) (uu_data v);
                r = Math_sqrt (sumSq / Fin (real n))
            in (r, v\<lparr>uu_dataRms := r\<rparr>))
      else (uu_dataRms v, v))"

definition getValueForSigma :: "volume \<Rightarrow> jsval \<Rightarrow> jsval \<times> volume" where
  "getValueForSigma v sigma =
     (let sigma1 = (if sigma \<noteq> Undefined then sigma else Fin 2);
          (mean, v1) = getDataMean v;
          (rms, v2) = getDataRms v1
      in (mean + sigma1 * rms, v2))"

definition getSigmaForValue :: "volume \<Rightarrow> jsval \<Rightarrow> jsval \<times> volume" where
  "getSigmaForValue v value =
     (let value1 = (if value \<noteq> Undefined then value else Fin 0);
          (mean, v1) = getDataMean v;
          (rms, v2) = getDataRms v1
      in ((value1 - mean) / rms, v2))"

subsection \<open>The transform and the values derived from it\<close>

definition setMatrix :: "volume \<Rightarrow> jsval list \<Rightarrow> volume" where
  "setMatrix v m =
     (let v1 = v\<lparr>matrix := m\<rparr>;
          x = Fin (real (nx v1) - 1);
          y = Fin (real (ny v1) - 1);
          z = Fin (real (nz v1) - 1);
          bb = foldl expandByPoint makeEmpty
                 [Vector3 x y z, Vector3 x y (Fin 0), Vector3 x (Fin 0) z,
                  Vector3 x (Fin 0) (Fin 0), Vector3 (Fin 0) y z, Vector3 (Fin 0) (Fin 0) z,
                  Vector3 (Fin 0) y (Fin 0), Vector3 (Fin 0) (Fin 0) (Fin 0)];
          bb1 = Box3_applyMatrix4 bb (matrix v1);
          v2 = v1\<lparr>boundingBox := bb1, center := Box3_center bb1\<rparr>;
          me = matrix v2;
          r0 = Vector3 (js_at me 0) (js_at me 1) (js_at me 2);
          r1 = Vector3 (js_at me 4) (js_at me 5) (js_at me 6);
          r2 = Vector3 (js_at me 8) (js_at me 9) (js_at me 10);
          cp0 = crossVectors r1 r2;
          cp1 = crossVectors r2 r0;
          cp2 = crossVectors r0 r1;
          ne = (normalMatrix v2)
                 [0 := vx cp0, 1 := vy cp0, 2 := vz cp0,
                  3 := vx cp1, 4 := vy cp1, 5 := vz cp1,
                  6 := vx cp2, 7 := vy cp2, 8 := vz cp2];
          v3 = v2\<lparr>normalMatrix := ne\<rparr>
      in v3\<lparr>inverseMatrix := getInverse (matrix v3)\<rparr>)"

definition getBox :: "volume \<Rightarrow> vector3 \<Rightarrow> jsval \<Rightarrow> box3" where
  "getBox v center' size' =
     (let t0 = Box3_set (Obj_Vector3 center') (Obj_Vector3 center');
          t1 = expandByScalar t0 size';
          t2 = Box3_applyMatrix4 t1 (inverseMatrix v)
      in \<lparr>bmin = Vector3_round (bmin t2), bmax = Vector3_round (bmax t2)\<rparr>)"

subsection \<open>Surfaces\<close>

text \<open>
  The triangulation, the smoothing and the normals are computed by other modules
  (\<^verbatim>\<open>MarchingCubes\<close>, \<^verbatim>\<open>laplacianSmooth\<close>, \<^verbatim>\<open>BufferGeometry.computeVertexNormals\<close>);
  \<^verbatim>\<open>getSurface\<close> takes them as parameters. \<^verbatim>\<open>laplacianSmooth\<close> works in place: here it
  returns the smoothed positions.
\<close>

record surfaceData =
  position :: "jsval list"
  index :: "nat list"
  normal :: "jsval list option"

record externals =
  triangulate :: "marchingCubes \<Rightarrow> jsval \<Rightarrow> bool \<Rightarrow> (jsval list \<times> jsval list) option \<Rightarrow> surfaceData"
  laplacianSmooth :: "jsval list \<Rightarrow> nat list \<Rightarrow> jsval \<Rightarrow> bool \<Rightarrow> jsval list"
  computeVertexNormals :: "jsval list \<Rightarrow> nat list \<Rightarrow> jsval list"

record surface =
  surface_name :: string
  surface_path :: string
  surface_data :: surfaceData
  info_isolevel :: jsval
  info_smooth :: jsval

definition MarchingCubes ::
  "jsval list \<Rightarrow> nat \<Rightarrow> nat \<Rightarrow> nat \<Rightarrow> int list option \<Rightarrow> marchingCubes" where
  "MarchingCubes d a b c ai = \<lparr>mc_data = d, mc_nx = a, mc_ny = b, mc_nz = c, mc_atomindex = ai\<rparr>"

definition getSurface ::
  "externals \<Rightarrow> volume \<Rightarrow> jsval \<Rightarrow> jsval \<Rightarrow> vector3 option \<Rightarrow> jsval \<Rightarrow> surface \<times> volume" where
  "getSurface ext v isolevel smooth center' size' =
     (let (isolevel1, v1) = (if isNaN isolevel then getValueForSigma v (Fin 2) else (isolevel, v));
          smooth1 = (if truthy smooth then smooth else Fin 0);
          m = (case mc v1 of
                 None \<Rightarrow> MarchingCubes (uu_data v1) (nx v1) (ny v1) (nz v1) (uu_dataAtomindex v1)
               | Some m' \<Rightarrow> m');
          v2 = v1\<lparr>mc := Some m\<rparr>;
          (box, v3) =
            (case center' of
               None \<Rightarrow> (None, v2)
             | Some c \<Rightarrow>
                 if truthy size'
                 then (let b = getBox v2 c size'
                       in (Some (Vector3_toArray (bmin b), Vector3_toArray (bmax b)),
                           v2\<lparr>uu_box := Some b\<rparr>))
                 else (None, v2));
          sd = (if truthy smooth1
                then (let sd0 = triangulate ext m isolevel1 True box;
                          pos = laplacianSmooth ext (position sd0) (index sd0) smooth1 True
                      in sd0\<lparr>position := pos,
                             normal := Some (computeVertexNormals ext pos (index sd0))\<rparr>)
                else triangulate ext m isolevel1 False box);
          sd1 = sd\<lparr>position := applyToVector3Array (applyMatrix4 (matrix v3)) (position sd)\<rparr>;
          sd2 = sd1\<lparr>normal :=
                       map_option (applyToVector3Array (applyMatrix3 (normalMatrix v3))) (normal sd1)\<rparr>
      in (\<lparr>surface_name = [], surface_path = [], surface_data = sd2,
           info_isolevel = isolevel1, info_smooth = smooth1\<rparr>, v3))"

subsection \<open>The serialized form\<close>

text \<open>
  The object that \<^verbatim>\<open>toJSON\<close> builds, without its constant \<^verbatim>\<open>metadata\<close> entry, which
  \<^verbatim>\<open>fromJSON\<close> does not read.
\<close>

record volumeJSON =
  j_name :: string
  j_path :: string
  j_data :: "jsval list"
  j_nx :: nat
  j_ny :: nat
  j_nz :: nat
  j_dataAtomindex :: "int list option"
  j_matrix :: "jsval list"
  j_normalMatrix :: "jsval list"
  j_inverseMatrix :: "jsval list"
  j_center :: "jsval list"
  j_boundingBox_min :: "jsval list"
  j_boundingBox_max :: "jsval list"
  j_header :: "header option"

definition toJSON :: "volume \<Rightarrow> volumeJSON" where
  "toJSON v =
     \<lparr>j_name = name v, j_path = path v,
      j_data = uu_data v,
      j_nx = nx v, j_ny = ny v, j_nz = nz v,
      j_dataAtomindex = uu_dataAtomindex v,
      j_matrix = matrix v, j_normalMatrix = normalMatrix v, j_inverseMatrix = inverseMatrix v,
      j_center = Vector3_toArray (center v),
      j_boundingBox_min = Vector3_toArray (bmin (boundingBox v)),
      j_boundingBox_max = Vector3_toArray (bmax (boundingBox v)),
      j_header = header v\<rparr>"

definition fromJSON :: "volume \<Rightarrow> volumeJSON \<Rightarrow> volume \<times> event list" where
  "fromJSON v input =
     (let v1 = v\<lparr>name := j_name input, path := j_path input\<rparr>;
          (v2, es) = setData v1 (Some (j_data input)) (Some (j_nx input)) (Some (j_ny input))
                       (Some (j_nz input)) (j_dataAtomindex input);
          v3 = v2\<lparr>matrix := j_matrix input, normalMatrix := j_normalMatrix input,
                 inverseMatrix := j_inverseMatrix input\<rparr>;
          v4 = (case j_header input of None \<Rightarrow> v3 | Some h \<Rightarrow> v3\<lparr>header := Some h\<rparr>);
          v5 = v4\<lparr>center := Vector3_fromArray (j_center input)\<rparr>
      in (v5\<lparr>boundingBox := Box3_set (Obj_Array (j_boundingBox_min input))
                                      (Obj_Array (j_boundingBox_max input))\<rparr>, es))"

definition clone :: "volume \<Rightarrow> volume \<times> event list" where
  "clone v =
     (let (vol, es) = Volume (name v) (path v) (Some (uu_data v)) (Some (nx v)) (Some (ny v))
                        (Some (nz v)) (uu_dataAtomindex v);
          vol1 = vol\<lparr>matrix := matrix v\<rparr>
      in (case header v of None \<Rightarrow> (vol1, es) | Some h \<Rightarrow> (vol1\<lparr>header := Some h\<rparr>, es)))"

definition dispose :: "volume \<Rightarrow> volume \<times> event list" where
  "dispose v = (v\<lparr>workerPool := map_option terminate (workerPool v)\<rparr>, [GidPool_removeObject])"

subsection \<open>Surfaces computed by a worker\<close>

text \<open>
  What \<^verbatim>\<open>getSurfaceWorker\<close> posts to a worker, and the two ways it answers: the callback is
  called at once with a surface, or a message is posted to worker \<open>i\<close> of the pool.
\<close>

record message =
  msg_vol :: "volumeJSON option"
  msg_isolevel :: jsval
  msg_smooth :: jsval
  msg_center :: "vector3 option"
  msg_size :: jsval

datatype delivery = Called_back surface | Posted nat message

text \<open>
  \<open>workers\<close> is the test
  \<^verbatim>\<open>typeof Worker !== "undefined" && typeof importScripts !== 'function'\<close>.
  Modelled from the spec: \<^verbatim>\<open>getNextWorker\<close> and \<^verbatim>\<open>post\<close> of the pool hand out the
  workers in turn and count the messages posted to each.
\<close>

definition getSurfaceWorker ::
  "externals \<Rightarrow> bool \<Rightarrow> volume \<Rightarrow> jsval \<Rightarrow> jsval \<Rightarrow> vector3 option \<Rightarrow> jsval \<Rightarrow>
   delivery \<times> volume" where
  "getSurfaceWorker ext workers v isolevel smooth center' size' =
     (let (isolevel1, v1) = (if isNaN isolevel then getValueForSigma v (Fin 2) else (isolevel, v));
          smooth1 = (if truthy smooth then smooth else Fin 0)
      in if workers
         then (let pool = (case workerPool v1 of None \<Rightarrow> WorkerPool ''surf'' 2 | Some p \<Rightarrow> p);
                   i = pool_next pool;
                   postCount = pool_postCount pool ! i;
                   msg = \<lparr>msg_vol = (if postCount = 0 then Some (toJSON v1) else None),
                          msg_isolevel = isolevel1, msg_smooth = smooth1,
                          msg_center = center', msg_size = size'\<rparr>;
                   pool1 = pool\<lparr>pool_postCount := (pool_postCount pool)[i := postCount + 1],
                                pool_next := (i + 1) mod pool_size pool\<rparr>
               in (Posted i msg, v1\<lparr>workerPool := Some pool1\<rparr>))
         else (let (s, v2) = getSurface ext v1 isolevel1 smooth1 center' size'
               in (Called_back s, v2)))"

text \<open>The error callback of a posted message: the surface is computed without a worker.\<close>

definition getSurfaceWorker_onerror :: "externals \<Rightarrow> volume \<Rightarrow> message \<Rightarrow> surface \<times> volume" where
  "getSurfaceWorker_onerror ext v msg =
     getSurface ext v (msg_isolevel msg) (msg_smooth msg) (msg_center msg) (msg_size msg)"

text \<open>
  The function registered as \<^verbatim>\<open>"surf"\<close>, which runs in the worker: \<open>self_vol\<close> is the
  worker's own \<^verbatim>\<open>self.vol\<close>, absent before its first message.
\<close>

definition surf :: "externals \<Rightarrow> volume option \<Rightarrow> message \<Rightarrow> surface \<times> volume" where
  "surf ext self_vol d =
     (let vol = (case self_vol of
                   None \<Rightarrow> fst (Volume [] [] None None None None None)
                 | Some w \<Rightarrow> w);
          vol1 = (case msg_vol d of None \<Rightarrow> vol | Some j \<Rightarrow> fst (fromJSON vol j))
      in getSurface ext vol1 (msg_isolevel d) (msg_smooth d) (msg_center d) (msg_size d))"

subsection \<open>Filtering\<close>

definition grid :: "nat \<Rightarrow> nat \<Rightarrow> nat \<Rightarrow> jsval list" where
  "grid nx' ny' nz' =
     concat (map (\<lambda>z. concat (map (\<lambda>y. concat (map (\<lambda>x.
       [Fin (real x), Fin (real y), Fin (real z)]) [0..<nx'])) [0..<ny'])) [0..<nz'])"

definition makeDataPosition :: "volume \<Rightarrow> volume" where
  "makeDataPosition v =
     (let position' = applyToVector3Array (applyMatrix4 (matrix v)) (grid (nx v) (ny v) (nz v))
      in v\<lparr>dataPosition := Some position', uu_dataPosition := Some position'\<rparr>)"

datatype error = TypeError | RangeError

text \<open>The test of the loop of \<^verbatim>\<open>filterData\<close>.\<close>

definition retained :: "jsval \<Rightarrow> jsval \<Rightarrow> bool \<Rightarrow> jsval \<Rightarrow> bool" where
  "retained minValue maxValue outside v =
     ((\<not> outside \<and> js_le minValue v \<and> js_le v maxValue) \<or>
      (outside \<and> (js_lt v minValue \<or> js_lt maxValue v)))"

text \<open>
  The loop of \<^verbatim>\<open>filterData\<close>, from index \<open>i\<close> with \<open>j\<close> samples stored so far.
  \<open>dataPosition'\<close> is \<^verbatim>\<open>this.__dataPosition\<close>: reading an element of it when it is
  \<^verbatim>\<open>undefined\<close> throws a \<^verbatim>\<open>TypeError\<close>.
\<close>

function filterLoop ::
  "jsval list \<Rightarrow> jsval list option \<Rightarrow> jsval \<Rightarrow> jsval \<Rightarrow> bool \<Rightarrow> nat \<Rightarrow> nat \<Rightarrow> nat \<Rightarrow>
   jsval list \<Rightarrow> jsval list \<Rightarrow> error + (nat \<times> jsval list \<times> jsval list)" where
  "filterLoop data' dataPosition' minValue maxValue outside n i j filteredDataPosition filteredData =
     (if i < n
      then (if retained minValue maxValue outside (js_at data' i)
            then (case dataPosition' of
                    None \<Rightarrow> Inl TypeError
                  | Some dp \<Rightarrow>
                      filterLoop data' dataPosition' minValue maxValue outside n (i + 1) (j + 1)
                        (filteredDataPosition
                           [j * 3 + 0 := f32 (js_at dp (i * 3 + 0)),
                            j * 3 + 1 := f32 (js_at dp (i * 3 + 1)),
                            j * 3 + 2 := f32 (js_at dp (i * 3 + 2))])
                        (filteredData[j := f32 (js_at data' i)]))
            else filterLoop data' dataPosition' minValue maxValue outside n (i + 1) j
                   filteredDataPosition filteredData)
      else Inr (j, filteredDataPosition, filteredData))"
  by pat_completeness auto
termination
  by (relation "measure (\<lambda>(d, dp, mn, mx, out, n, i, j, fdp, fd). n - i)") auto

declare filterLoop.simps [simp del]

text \<open>
  Which of its three paths a call of \<^verbatim>\<open>filterData\<close> took: the early return, the
  assignment of the unfiltered arrays, or the loop.
\<close>

datatype filter_path = Already_filtered | Unfiltered | Filtered

text \<open>
  \<^verbatim>\<open>this.data\<close> and \<^verbatim>\<open>this.dataPosition\<close> hold the contents of the arrays they refer
  to. After the loop they are views of the two buffers: the first \<open>j\<close> and \<open>3 * j\<close>
  elements. A missing position buffer makes \<^verbatim>\<open>new Float32Array( undefined )\<close> an empty
  array; a view longer than its buffer throws a \<^verbatim>\<open>RangeError\<close>.
\<close>

definition filterData ::
  "volume \<Rightarrow> jsval \<Rightarrow> jsval \<Rightarrow> bool option \<Rightarrow> error + (filter_path \<times> volume)" where
  "filterData v minValue maxValue outside =
     (let minValue1 = (case header v of
                         None \<Rightarrow> minValue
                       | Some h \<Rightarrow> if isNaN minValue then DMEAN h + Fin 2 * ARMS h else minValue);
          minValue2 = (if minValue1 \<noteq> Undefined \<and> \<not> isNaN minValue1 then minValue1 else NInf);
          maxValue1 = (if maxValue \<noteq> Undefined then maxValue else PInf);
          outside1 = or_false outside;
          v1 = (if dataPosition v = None then makeDataPosition v else v);
          dataPosition' = uu_dataPosition v1;
          data' = uu_data v1
      in if strict_eq minValue2 (uu_minValue v1) \<and> loose_eq maxValue1 (uu_maxValue v1) \<and>
            Some outside1 = uu_outside v1
         then Inr (Already_filtered, v1)
         else if minValue2 = NInf \<and> maxValue1 = PInf
         then Inr (Unfiltered,
                   v1\<lparr>dataPosition := dataPosition', data := data',
                      uu_minValue := minValue2, uu_maxValue := maxValue1,
                      uu_outside := Some outside1\<rparr>)
         else (let n = length data';
                   v2 = (if uu_dataBuffer v1 = None
                         then v1\<lparr>uu_dataPositionBuffer := Some (Float32Array (n * 3)),
                                 uu_dataBuffer := Some (Float32Array n)\<rparr>
                         else v1);
                   fdp0 = (case uu_dataPositionBuffer v2 of None \<Rightarrow> [] | Some b \<Rightarrow> b);
                   fd0 = (case uu_dataBuffer v2 of None \<Rightarrow> [] | Some b \<Rightarrow> b)
               in case filterLoop data' dataPosition' minValue2 maxValue1 outside1 n 0 0 fdp0 fd0 of
                    Inl e \<Rightarrow> Inl e
                  | Inr (j, fdp, fd) \<Rightarrow>
                      if (uu_dataPositionBuffer v2 \<noteq> None \<and> length fdp < j * 3) \<or> length fd < j
                      then Inl RangeError
                      else Inr (Filtered,
                                v2\<lparr>uu_dataPositionBuffer :=
                                      map_option (\<lambda>b. fdp) (uu_dataPositionBuffer v2),
                                    uu_dataBuffer := Some fd,
                                    dataPosition := Some (take (j * 3) fdp),
                                    data := take j fd,
                                    uu_minValue := minValue2, uu_maxValue := maxValue1,
                                    uu_outside := Some outside1\<rparr>)))"

section \<open>What the derived values are meant to be\<close>

text \<open>
  The spec describes the values derived from the transform in mathematical terms: a
  transpose of an adjugate, an exact inverse, the box and the centroid of eight
  transformed grid corners. These definitions follow the spec's words, over the reals;
  \<open>entry4r rs r c\<close> is entry (row \<open>r\<close>, column \<open>c\<close>) of the column-major element list
  \<open>rs\<close> of a 4x4 matrix.
\<close>

definition entry4r :: "real list \<Rightarrow> nat \<Rightarrow> nat \<Rightarrow> real" where
  "entry4r rs r c = rs ! (4 * c + r)"

definition matrix3_of :: "(nat \<Rightarrow> nat \<Rightarrow> real) \<Rightarrow> real list" where
  "matrix3_of f = map (\<lambda>k. f (k mod 3) (k div 3)) [0..<9]"

definition matrix4_of :: "(nat \<Rightarrow> nat \<Rightarrow> real) \<Rightarrow> real list" where
  "matrix4_of f = map (\<lambda>k. f (k mod 4) (k div 4)) [0..<16]"

definition transposed :: "(nat \<Rightarrow> nat \<Rightarrow> 'a) \<Rightarrow> nat \<Rightarrow> nat \<Rightarrow> 'a" where
  "transposed f r c = f c r"

text \<open>
  The adjugate is the transpose of the matrix of cofactors. \<open>cofactor3\<close> reads rows and
  columns 0 to 2 of its argument only: of a 4x4 matrix, the linear part.
\<close>

definition adjugate3 :: "(nat \<Rightarrow> nat \<Rightarrow> real) \<Rightarrow> nat \<Rightarrow> nat \<Rightarrow> real" where
  "adjugate3 f r c = cofactor3 f c r"

definition cross :: "real list \<Rightarrow> real list \<Rightarrow> real list" where
  "cross a b =
     [a ! 1 * b ! 2 - a ! 2 * b ! 1, a ! 2 * b ! 0 - a ! 0 * b ! 2, a ! 0 * b ! 1 - a ! 1 * b ! 0]"

definition mat4_mul :: "real list \<Rightarrow> real list \<Rightarrow> real list" where
  "mat4_mul a b = matrix4_of (\<lambda>r c. \<Sum>i<4. entry4r a r i * entry4r b i c)"

definition identity4 :: "real list" where
  "identity4 = matrix4_of (\<lambda>r c. if r = c then 1 else 0)"

definition inverse4 :: "real list \<Rightarrow> real list" where
  "inverse4 rs = matrix4_of (\<lambda>r c. cofactor4 (entry4r rs) c r * (1 / det4 (entry4r rs)))"

type_synonym point = "real \<times> real \<times> real"

definition px :: "point \<Rightarrow> real" where
  "px p = fst p"

definition py :: "point \<Rightarrow> real" where
  "py p = fst (snd p)"

definition pz :: "point \<Rightarrow> real" where
  "pz p = snd (snd p)"

definition vector3_of :: "point \<Rightarrow> vector3" where
  "vector3_of p = (case p of (x, y, z) \<Rightarrow> Vector3 (Fin x) (Fin y) (Fin z))"

definition transform_point :: "real list \<Rightarrow> point \<Rightarrow> point" where
  "transform_point rs p =
     (case p of (x, y, z) \<Rightarrow>
        (entry4r rs 0 0 * x + entry4r rs 0 1 * y + entry4r rs 0 2 * z + entry4r rs 0 3,
         entry4r rs 1 0 * x + entry4r rs 1 1 * y + entry4r rs 1 2 * z + entry4r rs 1 3,
         entry4r rs 2 0 * x + entry4r rs 2 1 * y + entry4r rs 2 2 * z + entry4r rs 2 3))"

text \<open>The 8 grid corners \<open>(0 | nx - 1, 0 | ny - 1, 0 | nz - 1)\<close> and their images.\<close>

definition grid_corners :: "nat \<Rightarrow> nat \<Rightarrow> nat \<Rightarrow> point list" where
  "grid_corners a b c =
     [(x, y, z). x \<leftarrow> [0, real a - 1], y \<leftarrow> [0, real b - 1], z \<leftarrow> [0, real c - 1]]"

definition world_corners :: "real list \<Rightarrow> nat \<Rightarrow> nat \<Rightarrow> nat \<Rightarrow> point list" where
  "world_corners rs a b c = map (transform_point rs) (grid_corners a b c)"

definition bounding_box :: "point list \<Rightarrow> box3" where
  "bounding_box ps =
     \<lparr>bmin = vector3_of (Min (px ` set ps), Min (py ` set ps), Min (pz ` set ps)),
      bmax = vector3_of (Max (px ` set ps), Max (py ` set ps), Max (pz ` set ps))\<rparr>"

definition centroid :: "point list \<Rightarrow> point" where
  "centroid ps =
     (sum_list (map px ps) / real (length ps),
      sum_list (map py ps) / real (length ps),
      sum_list (map pz ps) / real (length ps))"

definition box_points :: "point \<Rightarrow> point \<Rightarrow> point list" where
  "box_points lo hi =
     [(px lo, py lo, pz lo), (px lo, py lo, pz hi), (px lo, py hi, pz lo), (px lo, py hi, pz hi),
      (px hi, py lo, pz lo), (px hi, py lo, pz hi), (px hi, py hi, pz lo), (px hi, py hi, pz hi)]"

text \<open>The finite numbers of an array, when all its elements are finite.\<close>

fun fin_of :: "jsval \<Rightarrow> real option" where
  "fin_of (Fin a) = Some a"
| "fin_of _ = None"

definition reals_of :: "jsval list \<Rightarrow> real list option" where
  "reals_of xs =
     (if list_all (\<lambda>x. fin_of x \<noteq> None) xs then Some (map (\<lambda>x. the (fin_of x)) xs) else None)"

text \<open>
  The invariant of the spec: the normal matrix, the inverse, the bounding box and the
  centre of a volume are the ones that belong to its matrix and its grid extents.
\<close>

definition derived_consistent :: "volume \<Rightarrow> bool" where
  "derived_consistent v =
     (case reals_of (matrix v) of
        None \<Rightarrow> False
      | Some rs \<Rightarrow>
          length rs = 16 \<and>
          normalMatrix v = map Fin (matrix3_of (transposed (adjugate3 (entry4r rs)))) \<and>
          (case reals_of (inverseMatrix v) of
             None \<Rightarrow> False
           | Some im \<Rightarrow>
               length im = 16 \<and> mat4_mul im rs = identity4 \<and> mat4_mul rs im = identity4) \<and>
          boundingBox v = bounding_box (world_corners rs (nx v) (ny v) (nz v)) \<and>
          center v = vector3_of (centroid (world_corners rs (nx v) (ny v) (nz v))))"

section \<open>The parts of a call of \<open>filterData\<close>\<close>

text \<open>
  Names for the parts of \<open>filterData\<close> that the properties speak of: the triple it works
  with after its defaults (\<open>requested\<close>), the volume once the positions are there
  (\<open>positioned\<close>), and what it does from there on (\<open>filterData_core\<close>, the rest of the
  body of \<open>filterData\<close> word for word; \<open>filterData_alt\<close> below puts the parts together).
\<close>

definition requested :: "volume \<Rightarrow> jsval \<Rightarrow> jsval \<Rightarrow> bool option \<Rightarrow> jsval \<times> jsval \<times> bool" where
  "requested v minValue maxValue outside =
     (let minValue1 = (case header v of
                         None \<Rightarrow> minValue
                       | Some h \<Rightarrow> if isNaN minValue then DMEAN h + Fin 2 * ARMS h else minValue)
      in (if minValue1 \<noteq> Undefined \<and> \<not> isNaN minValue1 then minValue1 else NInf,
          if maxValue \<noteq> Undefined then maxValue else PInf,
          or_false outside))"

definition positioned :: "volume \<Rightarrow> volume" where
  "positioned v = (if dataPosition v = None then makeDataPosition v else v)"

definition filterData_core ::
  "volume \<Rightarrow> jsval \<Rightarrow> jsval \<Rightarrow> bool \<Rightarrow> error + (filter_path \<times> volume)" where
  "filterData_core v1 minValue2 maxValue1 outside1 =
     (let dataPosition' = uu_dataPosition v1;
          data' = uu_data v1
      in if strict_eq minValue2 (uu_minValue v1) \<and> loose_eq maxValue1 (uu_maxValue v1) \<and>
            Some outside1 = uu_outside v1
         then Inr (Already_filtered, v1)
         else if minValue2 = NInf \<and> maxValue1 = PInf
         then Inr (Unfiltered,
                   v1\<lparr>dataPosition := dataPosition', data := data',
                      uu_minValue := minValue2, uu_maxValue := maxValue1,
                      uu_outside := Some outside1\<rparr>)
         else (let n = length data';
                   v2 = (if uu_dataBuffer v1 = None
                         then v1\<lparr>uu_dataPositionBuffer := Some (Float32Array (n * 3)),
                                 uu_dataBuffer := Some (Float32Array n)\<rparr>
                         else v1);
                   fdp0 = (case uu_dataPositionBuffer v2 of None \<Rightarrow> [] | Some b \<Rightarrow> b);
                   fd0 = (case uu_dataBuffer v2 of None \<Rightarrow> [] | Some b \<Rightarrow> b)
               in case filterLoop data' dataPosition' minValue2 maxValue1 outside1 n 0 0 fdp0 fd0 of
                    Inl e \<Rightarrow> Inl e
                  | Inr (j, fdp, fd) \<Rightarrow>
                      if (uu_dataPositionBuffer v2 \<noteq> None \<and> length fdp < j * 3) \<or> length fd < j
                      then Inl RangeError
                      else Inr (Filtered,
                                v2\<lparr>uu_dataPositionBuffer :=
                                      map_option (\<lambda>b. fdp) (uu_dataPositionBuffer v2),
                                    uu_dataBuffer := Some fd,
                                    dataPosition := Some (take (j * 3) fdp),
                                    data := take j fd,
                                    uu_minValue := minValue2, uu_maxValue := maxValue1,
                                    uu_outside := Some outside1\<rparr>)))"

text \<open>
  The position of sample \<open>i\<close> as the loop stores it, and the indices in \<open>i..<n\<close> of the
  samples that pass the test.
\<close>

definition position_of :: "jsval list \<Rightarrow> nat \<Rightarrow> jsval list" where
  "position_of dp i = [f32 (js_at dp (i * 3 + 0)), f32 (js_at dp (i * 3 + 1)), f32 (js_at dp (i * 3 + 2))]"

definition kept :: "jsval \<Rightarrow> jsval \<Rightarrow> bool \<Rightarrow> jsval list \<Rightarrow> nat \<Rightarrow> nat \<Rightarrow> nat list" where
  "kept mn mx out d i n = filter (\<lambda>k. retained mn mx out (js_at d k)) [i..<n]"

text \<open>
  The two buffers are allocated together, for as many samples as the volume has, and a
  missing buffer is allocated by the next call that needs it.
\<close>

definition buffers_ok :: "volume \<Rightarrow> bool" where
  "buffers_ok v =
     (case uu_dataBuffer v of
        None \<Rightarrow> uu_dataPositionBuffer v = None
      | Some fd \<Rightarrow>
          length fd = length (uu_data v) \<and>
          (case uu_dataPositionBuffer v of
             None \<Rightarrow> False
           | Some fdp \<Rightarrow> length fdp = length (uu_data v) * 3))"

definition buffer_or :: "jsval list option \<Rightarrow> nat \<Rightarrow> jsval list" where
  "buffer_or b n = (case b of None \<Rightarrow> Float32Array n | Some x \<Rightarrow> x)"

section \<open>Example values\<close>

text \<open>A transform with the scale factors 2, 4 and 5 and the translation (1, 2, 3).\<close>

definition scale_and_shift :: "real list" where
  "scale_and_shift = [2, 0, 0, 0,  0, 4, 0, 0,  0, 0, 5, 0,  1, 2, 3, 1]"

text \<open>
  Collaborators that find no surface, and a volume with the single sample 1 (mean 1, root
  mean square 1).
\<close>

definition no_surface :: externals where
  "no_surface =
     \<lparr>triangulate = (\<lambda>m isolevel smooth box. \<lparr>position = [], index = [], normal = None\<rparr>),
      laplacianSmooth = (\<lambda>p i n b. p),
      computeVertexNormals = (\<lambda>p i. [])\<rparr>"


text \<open>A volume of two samples, 1 and 2, on a 2x1x1 grid.\<close>

definition two_samples :: volume where
  "two_samples = fst (Volume [] [] (Some [Fin 1, Fin 2]) (Some 2) None None None)"

text \<open>
  The same volume after an unfiltered \<open>filterData\<close>, and after its data were then
  replaced by three samples on a 3x1x1 grid.
\<close>

definition unfiltered_two :: volume where
  "unfiltered_two = snd (projr (filterData two_samples Undefined Undefined None))"

definition replaced_two :: volume where
  "replaced_two = fst (setData unfiltered_two (Some [Fin 3, Fin 4, Fin 5]) (Some 3) None None None)"

text \<open>
  A fresh volume of the three samples 3, 4 and 5 on a 3x1x1 grid, and the volume with the
  replaced data after a \<open>filterData\<close> without bounds.
\<close>

definition three_samples :: volume where
  "three_samples = fst (Volume [] [] (Some [Fin 3, Fin 4, Fin 5]) (Some 3) None None None)"

definition unfiltered_replaced :: volume where
  "unfiltered_replaced = snd (projr (filterData replaced_two Undefined Undefined None))"

text \<open>
  The volume of two samples with the example transform set, and after a surface was
  requested from it where workers are available.
\<close>

definition scaled_two :: volume where
  "scaled_two = setMatrix two_samples (map Fin scale_and_shift)"

definition posted_two :: volume where
  "posted_two = snd (getSurfaceWorker no_surface True two_samples (Fin 1) Undefined None Undefined)"

section \<open>Properties\<close>

subsection \<open>What \<open>setData\<close> leaves in the fields\<close>

lemma setData_fields:
  "uu_data (fst (setData v d a b c ai)) = (case d of None \<Rightarrow> Float32Array 1 | Some x \<Rightarrow> x)"
  "data (fst (setData v d a b c ai)) = (case d of None \<Rightarrow> Float32Array 1 | Some x \<Rightarrow> x)"
  "nx (fst (setData v d a b c ai)) = or_one a"
  "ny (fst (setData v d a b c ai)) = or_one b"
  "nz (fst (setData v d a b c ai)) = or_one c"
  "uu_dataMin (fst (setData v d a b c ai)) = Undefined"
  "uu_dataMax (fst (setData v d a b c ai)) = Undefined"
  "uu_dataMean (fst (setData v d a b c ai)) = Undefined"
  "uu_dataRms (fst (setData v d a b c ai)) = Undefined"
  by (simp_all add: setData_def Let_def setDataAtomindex_def)

subsection \<open>The registry and large volumes\<close>

text \<open>
  Claim C9. When the sample count exceeds \<open>10^7\<close>, neither \<open>setData\<close> nor the
  constructor adds or updates the volume in the registry: the only calls are a warning to
  the log and the removal of the object, and both functions return normally. When the
  sample count is at most \<open>10^7\<close>, \<open>setData\<close> notifies the registry of the update and
  the constructor of the update and then of the addition. The sample count is the length of
  the array kept in \<^verbatim>\<open>__data\<close>: the given array, or the one-element default.
\<close>

theorem large_volume_not_registered:
  "let n = length (case data' of None \<Rightarrow> Float32Array 1 | Some a \<Rightarrow> a)
   in (10 ^ 7 < n \<longrightarrow>
         snd (setData v data' a b c ai)
           = [Log_warn ''Volume too large (>10^7), not adding to GidPool'', GidPool_removeObject] \<and>
         snd (Volume nm pth data' a b c ai)
           = [Log_warn ''Volume too large (>10^7), not adding to GidPool'', GidPool_removeObject]) \<and>
      (n \<le> 10 ^ 7 \<longrightarrow>
         snd (setData v data' a b c ai) = [GidPool_updateObject True] \<and>
         snd (Volume nm pth data' a b c ai) = [GidPool_updateObject True, GidPool_addObject])"
  by (simp add: Volume_def setData_def Let_def setDataAtomindex_def split: prod.splits)

theorem large_volume_not_registered_witness:
  "snd (Volume [] [] (Some (replicate 10000001 (Fin 0))) None None None None)
     = [Log_warn ''Volume too large (>10^7), not adding to GidPool'', GidPool_removeObject] \<and>
   snd (Volume [] [] (Some [Fin 1, Fin 2]) (Some 2) None None None)
     = [GidPool_updateObject True, GidPool_addObject]"
  using large_volume_not_registered
          [of "Some (replicate 10000001 (Fin 0))" _ None None None None "[]" "[]"]
        large_volume_not_registered
          [of "Some [Fin 1, Fin 2]" _ "Some 2" None None None "[]" "[]"]
  by simp

subsection \<open>The default samples\<close>

text \<open>
  Claim C10, as stated, at \<^verbatim>\<open>setData( undefined, 5, 5, 5 )\<close>: the samples are absent,
  the data become the one-element array of 0, and the extents stay 5, 5 and 5; they do not
  become 1.
\<close>

theorem setData_absent_samples_counterexample:
  "uu_data (fst (setData (blank [] []) None (Some 5) (Some 5) (Some 5) None)) = [Fin 0] \<and>
   nx (fst (setData (blank [] []) None (Some 5) (Some 5) (Some 5) None)) = 5 \<and>
   ny (fst (setData (blank [] []) None (Some 5) (Some 5) (Some 5) None)) = 5 \<and>
   nz (fst (setData (blank [] []) None (Some 5) (Some 5) (Some 5) None)) = 5"
  by (simp add: setData_fields or_one_def Float32Array_def)

text \<open>
  Claim C10, amended. When \<open>setData\<close> is called with the samples absent, the data (both
  \<^verbatim>\<open>data\<close> and \<^verbatim>\<open>__data\<close>) become the one-element array of 0; each of \<open>nx\<close>, \<open>ny\<close>,
  \<open>nz\<close> becomes 1 when its own argument is absent or 0 and is the given extent otherwise;
  and on the resulting volume the minimum, the maximum, the mean and the root mean square
  are all 0.
\<close>

theorem setData_absent_samples:
  "let w = fst (setData v None nx' ny' nz' ai)
   in uu_data w = [Fin 0] \<and> data w = [Fin 0] \<and>
      nx w = (case nx' of None \<Rightarrow> 1 | Some k \<Rightarrow> if k = 0 then 1 else k) \<and>
      ny w = (case ny' of None \<Rightarrow> 1 | Some k \<Rightarrow> if k = 0 then 1 else k) \<and>
      nz w = (case nz' of None \<Rightarrow> 1 | Some k \<Rightarrow> if k = 0 then 1 else k) \<and>
      fst (getDataMin w) = Fin 0 \<and> fst (getDataMax w) = Fin 0 \<and>
      fst (getDataMean w) = Fin 0 \<and> fst (getDataRms w) = Fin 0"
  by (simp add: setData_fields or_one_def Float32Array_def getDataMin_def getDataMax_def
      getDataMean_def getDataRms_def Let_def Math_min_def Math_max_def)

subsection \<open>The values derived from the transform\<close>

lemma list16: "length (rs::'a list) = 16 \<Longrightarrow> \<exists>a0 a1 a2 a3 a4 a5 a6 a7 a8 a9 a10 a11 a12 a13 a14 a15.
   rs = [a0,a1,a2,a3,a4,a5,a6,a7,a8,a9,a10,a11,a12,a13,a14,a15]"
  by (simp add: eval_nat_numeral length_Suc_conv) blast

lemma list9: "length (rs::'a list) = 9 \<Longrightarrow> \<exists>a0 a1 a2 a3 a4 a5 a6 a7 a8.
   rs = [a0,a1,a2,a3,a4,a5,a6,a7,a8]"
  by (simp add: eval_nat_numeral length_Suc_conv) blast

lemma upt16: "[0..<16] = [0,1,2,3,4,5,6,7,8,9,10,11,12,13,14,15]"
  by (simp add: upt_rec)

lemma upt9: "[0..<9] = [0,1,2,3,4,5,6,7,8]"
  by (simp add: upt_rec)

lemma lessThan4: "{..<4::nat} = {0,1,2,3}" by auto

lemmas cof_defs = det4_def cofactor4_def det3_def cofactor3_def det2_def minor_def skip_def signed_def
  numeral_2_eq_2[symmetric] numeral_3_eq_3[symmetric]

lemma cofactor_columns:
  fixes f :: "nat \<Rightarrow> nat \<Rightarrow> real"
  assumes "r < 4" "c < 4"
  shows "(\<Sum>k<4. cofactor4 f k r * f k c) = (if r = c then det4 f else 0)"
proof -
  have r: "r = 0 \<or> r = 1 \<or> r = 2 \<or> r = 3" using assms(1) by arith
  have c: "c = 0 \<or> c = 1 \<or> c = 2 \<or> c = 3" using assms(2) by arith
  show ?thesis using r c
    by (elim disjE; simp add: lessThan4 cof_defs algebra_simps)
qed

lemma cofactor_rows:
  fixes f :: "nat \<Rightarrow> nat \<Rightarrow> real"
  assumes "r < 4" "c < 4"
  shows "(\<Sum>k<4. f r k * cofactor4 f c k) = (if r = c then det4 f else 0)"
proof -
  have r: "r = 0 \<or> r = 1 \<or> r = 2 \<or> r = 3" using assms(1) by arith
  have c: "c = 0 \<or> c = 1 \<or> c = 2 \<or> c = 3" using assms(2) by arith
  show ?thesis using r c
    by (elim disjE; simp add: lessThan4 cof_defs algebra_simps)
qed

lemma entry4r_matrix4_of: "r < 4 \<Longrightarrow> c < 4 \<Longrightarrow> entry4r (matrix4_of g) r c = g r c"
  by (simp add: entry4r_def matrix4_of_def)

lemma matrix4_of_cong:
  "(\<And>r c. r < 4 \<Longrightarrow> c < 4 \<Longrightarrow> f r c = g r c) \<Longrightarrow> matrix4_of f = matrix4_of g"
  by (simp add: matrix4_of_def)

lemma inverse4_left:
  assumes "det4 (entry4r rs) \<noteq> 0"
  shows "mat4_mul (inverse4 rs) rs = identity4"
  unfolding mat4_mul_def identity4_def
proof (rule matrix4_of_cong)
  fix r c :: nat assume rc: "r < 4" "c < 4"
  have "(\<Sum>i<4. entry4r (inverse4 rs) r i * entry4r rs i c)
      = (\<Sum>i<4. cofactor4 (entry4r rs) i r * entry4r rs i c) * (1 / det4 (entry4r rs))"
    using rc by (simp add: inverse4_def entry4r_matrix4_of sum_divide_distrib mult_ac)
  also have "\<dots> = (if r = c then 1 else 0)"
    using assms rc by (simp add: cofactor_columns)
  finally show "(\<Sum>i<4. entry4r (inverse4 rs) r i * entry4r rs i c) = (if r = c then 1 else 0)" .
qed

lemma inverse4_right:
  assumes "det4 (entry4r rs) \<noteq> 0"
  shows "mat4_mul rs (inverse4 rs) = identity4"
  unfolding mat4_mul_def identity4_def
proof (rule matrix4_of_cong)
  fix r c :: nat assume rc: "r < 4" "c < 4"
  have "(\<Sum>i<4. entry4r rs r i * entry4r (inverse4 rs) i c)
      = (\<Sum>i<4. entry4r rs r i * cofactor4 (entry4r rs) c i) * (1 / det4 (entry4r rs))"
    using rc by (simp add: inverse4_def entry4r_matrix4_of sum_divide_distrib mult_ac)
  also have "\<dots> = (if r = c then 1 else 0)"
    using assms rc by (simp add: cofactor_rows)
  finally show "(\<Sum>i<4. entry4r rs r i * entry4r (inverse4 rs) i c) = (if r = c then 1 else 0)" .
qed

lemma det4_Fin:
  assumes "length rs = 16"
  shows "det4 (entry4 (map Fin rs)) = Fin (det4 (entry4r rs))"
proof -
  obtain a0 a1 a2 a3 a4 a5 a6 a7 a8 a9 a10 a11 a12 a13 a14 a15
    where "rs = [a0,a1,a2,a3,a4,a5,a6,a7,a8,a9,a10,a11,a12,a13,a14,a15]"
    using list16 [OF assms] by blast
  then show ?thesis
    by (simp add: cof_defs entry4_def entry4r_def js_at_def minus_jsval_def)
qed

lemma cofactor4_Fin:
  assumes "length rs = 16" "i < 4" "j < 4"
  shows "cofactor4 (entry4 (map Fin rs)) i j = Fin (cofactor4 (entry4r rs) i j)"
proof -
  obtain a0 a1 a2 a3 a4 a5 a6 a7 a8 a9 a10 a11 a12 a13 a14 a15
    where rs: "rs = [a0,a1,a2,a3,a4,a5,a6,a7,a8,a9,a10,a11,a12,a13,a14,a15]"
    using list16 [OF assms(1)] by blast
  have i: "i = 0 \<or> i = 1 \<or> i = 2 \<or> i = 3" using assms(2) by arith
  have j: "j = 0 \<or> j = 1 \<or> j = 2 \<or> j = 3" using assms(3) by arith
  show ?thesis using i j unfolding rs
    by (elim disjE; simp add: cof_defs entry4_def entry4r_def js_at_def minus_jsval_def)
qed

lemma getInverse_Fin:
  assumes "length rs = 16" "det4 (entry4r rs) \<noteq> 0"
  shows "getInverse (map Fin rs) = map Fin (inverse4 rs)"
  using assms
  by (simp add: getInverse_def Let_def det4_Fin inverse4_def matrix4_of_def cofactor4_Fin)

lemma getInverse_singular:
  assumes "length rs = 16" "det4 (entry4r rs) = 0"
  shows "getInverse (map Fin rs) = Matrix4"
  using assms by (simp add: getInverse_def Let_def det4_Fin)

lemma Math_min_Fin [simp]:
  "Math_min (Fin a) (Fin b) = Fin (min a b)" "Math_min PInf (Fin a) = Fin a"
  by (simp_all add: Math_min_def min_def)

lemma Math_max_Fin [simp]:
  "Math_max (Fin a) (Fin b) = Fin (max a b)" "Math_max NInf (Fin a) = Fin a"
  by (simp_all add: Math_max_def max_def)

lemma expandByPoint_empty: "expandByPoint makeEmpty (vector3_of p) = bounding_box [p]"
  by (cases p) (simp add: expandByPoint_def makeEmpty_def vector3_of_def bounding_box_def
      vector_min_def vector_max_def Vector3_def px_def py_def pz_def)

lemma expandByPoint_box:
  "ps \<noteq> [] \<Longrightarrow> expandByPoint (bounding_box ps) (vector3_of q) = bounding_box (ps @ [q])"
  by (cases q) (simp add: expandByPoint_def vector3_of_def bounding_box_def
      vector_min_def vector_max_def Vector3_def px_def py_def pz_def min.commute max.commute)

lemma foldl_expandByPoint_box:
  "ps \<noteq> [] \<Longrightarrow> foldl expandByPoint (bounding_box ps) (map vector3_of qs) = bounding_box (ps @ qs)"
proof (induction qs arbitrary: ps)
  case Nil
  then show ?case by simp
next
  case (Cons q qs)
  have "foldl expandByPoint (bounding_box ps) (map vector3_of (q # qs))
      = foldl expandByPoint (bounding_box (ps @ [q])) (map vector3_of qs)"
    using Cons.prems by (simp add: expandByPoint_box)
  also have "\<dots> = bounding_box ((ps @ [q]) @ qs)"
    by (rule Cons.IH) simp
  finally show ?case by simp
qed

lemma foldl_expandByPoint_empty:
  "ps \<noteq> [] \<Longrightarrow> foldl expandByPoint makeEmpty (map vector3_of ps) = bounding_box ps"
proof (cases ps)
  case Nil
  assume "ps \<noteq> []" with Nil show ?thesis by simp
next
  case (Cons p qs)
  then show ?thesis
    using foldl_expandByPoint_box [of "[p]" qs] by (simp add: expandByPoint_empty)
qed

lemma bounding_box_set: "set ps = set qs \<Longrightarrow> bounding_box ps = bounding_box qs"
  by (simp add: bounding_box_def)

lemma applyMatrix4_Fin:
  "length rs = 16 \<Longrightarrow> applyMatrix4 (map Fin rs) (vector3_of p) = vector3_of (transform_point rs p)"
  by (cases p) (simp add: applyMatrix4_def vector3_of_def transform_point_def js_at_def
      entry4r_def Vector3_def numeral_2_eq_2[symmetric] numeral_3_eq_3[symmetric])

lemma setMatrix_matrix: "matrix (setMatrix v m) = m"
  by (simp add: setMatrix_def Let_def)

lemma setMatrix_inverseMatrix: "inverseMatrix (setMatrix v m) = getInverse m"
  by (simp add: setMatrix_def Let_def)

lemma setMatrix_normalMatrix:
  assumes "length rs = 16" "length (normalMatrix v) = 9"
  shows "normalMatrix (setMatrix v (map Fin rs))
       = map Fin (matrix3_of (transposed (adjugate3 (entry4r rs))))"
proof -
  obtain a0 a1 a2 a3 a4 a5 a6 a7 a8 a9 a10 a11 a12 a13 a14 a15
    where rs: "rs = [a0,a1,a2,a3,a4,a5,a6,a7,a8,a9,a10,a11,a12,a13,a14,a15]"
    using list16 [OF assms(1)] by blast
  obtain n0 n1 n2 n3 n4 n5 n6 n7 n8
    where ne: "normalMatrix v = [n0,n1,n2,n3,n4,n5,n6,n7,n8]"
    using list9 [OF assms(2)] by blast
  show ?thesis
    unfolding rs
    by (simp add: setMatrix_def Let_def ne crossVectors_def Vector3_def js_at_def
        matrix3_of_def upt9 transposed_def adjugate3_def cofactor3_def det2_def minor_def
        skip_def signed_def entry4r_def minus_jsval_def)
qed

lemma box_corners_of:
  "box_corners \<lparr>bmin = vector3_of lo, bmax = vector3_of hi\<rparr> = map vector3_of (box_points lo hi)"
  by (cases lo; cases hi)
     (simp add: box_corners_def box_points_def vector3_of_def Vector3_def px_def py_def pz_def)

lemma Box3_applyMatrix4_Fin:
  assumes "length rs = 16"
  shows "Box3_applyMatrix4 \<lparr>bmin = vector3_of lo, bmax = vector3_of hi\<rparr> (map Fin rs)
       = bounding_box (map (transform_point rs) (box_points lo hi))"
proof -
  have "map (applyMatrix4 (map Fin rs)) (map vector3_of (box_points lo hi))
      = map vector3_of (map (transform_point rs) (box_points lo hi))"
    by (simp add: applyMatrix4_Fin [OF assms])
  then show ?thesis
    unfolding Box3_applyMatrix4_def box_corners_of
    using foldl_expandByPoint_empty [of "map (transform_point rs) (box_points lo hi)"]
    by (simp add: box_points_def)
qed

lemma grid_box_points:
  fixes x y z :: real
  shows "set (box_points (min x 0, min y 0, min z 0) (max x 0, max y 0, max z 0))
       = set [(a, b, c). a \<leftarrow> [0, x], b \<leftarrow> [0, y], c \<leftarrow> [0, z]]"
  by (cases "x \<le> 0"; cases "y \<le> 0"; cases "z \<le> 0")
     (auto simp: box_points_def px_def py_def pz_def min_def max_def)

lemma setMatrix_boundingBox:
  assumes "length rs = 16"
  shows "boundingBox (setMatrix v (map Fin rs))
       = bounding_box (world_corners rs (nx v) (ny v) (nz v))"
proof -
  define x y z where "x = real (nx v) - 1" and "y = real (ny v) - 1" and "z = real (nz v) - 1"
  let ?src = "[(x, y, z), (x, y, 0), (x, 0, z), (x, 0, 0), (0, y, z), (0, 0, z), (0, y, 0),
               (0::real, 0::real, 0::real)]"
  have src: "[Vector3 (Fin x) (Fin y) (Fin z), Vector3 (Fin x) (Fin y) (Fin 0),
              Vector3 (Fin x) (Fin 0) (Fin z), Vector3 (Fin x) (Fin 0) (Fin 0),
              Vector3 (Fin 0) (Fin y) (Fin z), Vector3 (Fin 0) (Fin 0) (Fin z),
              Vector3 (Fin 0) (Fin y) (Fin 0), Vector3 (Fin 0) (Fin 0) (Fin 0)]
             = map vector3_of ?src"
    by (simp add: vector3_of_def)
  have bb: "bounding_box ?src
          = \<lparr>bmin = vector3_of (min x 0, min y 0, min z 0),
             bmax = vector3_of (max x 0, max y 0, max z 0)\<rparr>"
    by (simp add: bounding_box_def px_def py_def pz_def min_def max_def)
  have "boundingBox (setMatrix v (map Fin rs))
      = Box3_applyMatrix4 (foldl expandByPoint makeEmpty (map vector3_of ?src)) (map Fin rs)"
    unfolding src [symmetric] by (simp add: setMatrix_def Let_def x_def y_def z_def)
  also have "\<dots> = Box3_applyMatrix4 (bounding_box ?src) (map Fin rs)"
    using foldl_expandByPoint_empty [of ?src] by simp
  also have "\<dots> = bounding_box (map (transform_point rs)
                       (box_points (min x 0, min y 0, min z 0) (max x 0, max y 0, max z 0)))"
    unfolding bb by (rule Box3_applyMatrix4_Fin [OF assms])
  also have "\<dots> = bounding_box (world_corners rs (nx v) (ny v) (nz v))"
    by (rule bounding_box_set)
       (simp only: set_map world_corners_def grid_corners_def grid_box_points x_def y_def z_def)
  finally show ?thesis .
qed

lemma midpoint_centroid:
  fixes p q r t x y z :: real
  defines "g \<equiv> \<lambda>u. case u of (a, b, c) \<Rightarrow> p * a + q * b + r * c + t"
  defines "cs \<equiv> [(a, b, c). a \<leftarrow> [0, x], b \<leftarrow> [0, y], c \<leftarrow> [0, z]]"
  shows "(Min (g ` set cs) + Max (g ` set cs)) * (1 / 2) = sum_list (map g cs) / real (length cs)"
  unfolding g_def cs_def
  by (cases "0 \<le> p * x"; cases "0 \<le> q * y"; cases "0 \<le> r * z")
     (simp_all add: min_def max_def)

lemma world_corners_midpoint:
  fixes rs :: "real list" and a b c :: nat
  defines "wc \<equiv> world_corners rs a b c"
  shows "(Min (px ` set wc) + Max (px ` set wc)) * (1 / 2) = sum_list (map px wc) / real (length wc)"
    and "(Min (py ` set wc) + Max (py ` set wc)) * (1 / 2) = sum_list (map py wc) / real (length wc)"
    and "(Min (pz ` set wc) + Max (pz ` set wc)) * (1 / 2) = sum_list (map pz wc) / real (length wc)"
proof -
  have g: "\<And>g. map g wc = map (g \<circ> transform_point rs) (grid_corners a b c)"
    by (simp add: wc_def world_corners_def)
  have s: "\<And>g. g ` set wc = (g \<circ> transform_point rs) ` set (grid_corners a b c)"
    by (simp add: wc_def world_corners_def image_image)
  have l: "length wc = length (grid_corners a b c)"
    by (simp add: wc_def world_corners_def)
  have x: "px \<circ> transform_point rs = (\<lambda>u. case u of (x, y, z) \<Rightarrow>
             entry4r rs 0 0 * x + entry4r rs 0 1 * y + entry4r rs 0 2 * z + entry4r rs 0 3)"
    by (auto simp: transform_point_def px_def fun_eq_iff)
  have y: "py \<circ> transform_point rs = (\<lambda>u. case u of (x, y, z) \<Rightarrow>
             entry4r rs 1 0 * x + entry4r rs 1 1 * y + entry4r rs 1 2 * z + entry4r rs 1 3)"
    by (auto simp: transform_point_def py_def fun_eq_iff)
  have z: "pz \<circ> transform_point rs = (\<lambda>u. case u of (x, y, z) \<Rightarrow>
             entry4r rs 2 0 * x + entry4r rs 2 1 * y + entry4r rs 2 2 * z + entry4r rs 2 3)"
    by (auto simp: transform_point_def pz_def fun_eq_iff)
  show "(Min (px ` set wc) + Max (px ` set wc)) * (1 / 2) = sum_list (map px wc) / real (length wc)"
    unfolding g s l x grid_corners_def by (rule midpoint_centroid)
  show "(Min (py ` set wc) + Max (py ` set wc)) * (1 / 2) = sum_list (map py wc) / real (length wc)"
    unfolding g s l y grid_corners_def by (rule midpoint_centroid)
  show "(Min (pz ` set wc) + Max (pz ` set wc)) * (1 / 2) = sum_list (map pz wc) / real (length wc)"
    unfolding g s l z grid_corners_def by (rule midpoint_centroid)
qed

lemma Box3_center_box:
  "Box3_center (bounding_box ps)
   = vector3_of ((Min (px ` set ps) + Max (px ` set ps)) * (1 / 2),
                 (Min (py ` set ps) + Max (py ` set ps)) * (1 / 2),
                 (Min (pz ` set ps) + Max (pz ` set ps)) * (1 / 2))"
  by (simp add: Box3_center_def bounding_box_def vector3_of_def Vector3_def)

lemma setMatrix_center:
  assumes "length rs = 16"
  shows "center (setMatrix v (map Fin rs))
       = vector3_of (centroid (world_corners rs (nx v) (ny v) (nz v)))"
proof -
  have "center (setMatrix v (map Fin rs)) = Box3_center (boundingBox (setMatrix v (map Fin rs)))"
    by (simp add: setMatrix_def Let_def)
  then show ?thesis
    by (simp only: setMatrix_boundingBox [OF assms] Box3_center_box world_corners_midpoint
        centroid_def)
qed

lemma reals_of_Fin: "reals_of (map Fin rs) = Some rs"
  by (simp add: reals_of_def list_all_iff o_def)

lemma setMatrix_cross:
  assumes "length rs = 16" "length (normalMatrix v) = 9"
  shows "normalMatrix (setMatrix v (map Fin rs))
       = map Fin (cross [rs ! 4, rs ! 5, rs ! 6] [rs ! 8, rs ! 9, rs ! 10]
                @ cross [rs ! 8, rs ! 9, rs ! 10] [rs ! 0, rs ! 1, rs ! 2]
                @ cross [rs ! 0, rs ! 1, rs ! 2] [rs ! 4, rs ! 5, rs ! 6])"
proof -
  obtain a0 a1 a2 a3 a4 a5 a6 a7 a8 a9 a10 a11 a12 a13 a14 a15
    where rs: "rs = [a0,a1,a2,a3,a4,a5,a6,a7,a8,a9,a10,a11,a12,a13,a14,a15]"
    using list16 [OF assms(1)] by blast
  obtain n0 n1 n2 n3 n4 n5 n6 n7 n8
    where ne: "normalMatrix v = [n0,n1,n2,n3,n4,n5,n6,n7,n8]"
    using list9 [OF assms(2)] by blast
  show ?thesis
    unfolding rs
    by (simp add: setMatrix_def Let_def ne crossVectors_def Vector3_def js_at_def
        cross_def minus_jsval_def)
qed

text \<open>
  Claim C8. After \<open>setMatrix\<close> with a matrix of 16 finite elements, the normal matrix is
  the transpose of the adjugate of the linear part of the matrix (its matrix of cofactors),
  assembled from the cross products \<open>r1 \<times> r2\<close>, \<open>r2 \<times> r0\<close>, \<open>r0 \<times> r1\<close> of the three
  vectors \<open>r0\<close>, \<open>r1\<close>, \<open>r2\<close> that the source reads from elements 0-2, 4-6 and 8-10;
  and when the matrix is invertible, the inverse matrix is its inverse: the product with
  the matrix, on either side, is the identity. The volume's normal matrix has 9 elements.
\<close>

theorem setMatrix_normal_and_inverse:
  assumes "length rs = 16" and "length (normalMatrix v) = 9"
  shows "normalMatrix (setMatrix v (map Fin rs))
           = map Fin (matrix3_of (transposed (adjugate3 (entry4r rs)))) \<and>
         normalMatrix (setMatrix v (map Fin rs))
           = map Fin (cross [rs ! 4, rs ! 5, rs ! 6] [rs ! 8, rs ! 9, rs ! 10]
                    @ cross [rs ! 8, rs ! 9, rs ! 10] [rs ! 0, rs ! 1, rs ! 2]
                    @ cross [rs ! 0, rs ! 1, rs ! 2] [rs ! 4, rs ! 5, rs ! 6]) \<and>
         (det4 (entry4r rs) \<noteq> 0 \<longrightarrow>
            (\<exists>im. length im = 16 \<and> inverseMatrix (setMatrix v (map Fin rs)) = map Fin im \<and>
                  mat4_mul im rs = identity4 \<and> mat4_mul rs im = identity4))"
proof (intro conjI impI)
  show "normalMatrix (setMatrix v (map Fin rs))
           = map Fin (matrix3_of (transposed (adjugate3 (entry4r rs))))"
    by (rule setMatrix_normalMatrix [OF assms])
  show "normalMatrix (setMatrix v (map Fin rs))
           = map Fin (cross [rs ! 4, rs ! 5, rs ! 6] [rs ! 8, rs ! 9, rs ! 10]
                    @ cross [rs ! 8, rs ! 9, rs ! 10] [rs ! 0, rs ! 1, rs ! 2]
                    @ cross [rs ! 0, rs ! 1, rs ! 2] [rs ! 4, rs ! 5, rs ! 6])"
    by (rule setMatrix_cross [OF assms])
next
  assume d: "det4 (entry4r rs) \<noteq> 0"
  have "length (inverse4 rs) = 16"
    by (simp add: inverse4_def matrix4_of_def)
  moreover have "inverseMatrix (setMatrix v (map Fin rs)) = map Fin (inverse4 rs)"
    by (simp add: setMatrix_inverseMatrix getInverse_Fin [OF assms(1) d])
  ultimately show "\<exists>im. length im = 16 \<and> inverseMatrix (setMatrix v (map Fin rs)) = map Fin im \<and>
                  mat4_mul im rs = identity4 \<and> mat4_mul rs im = identity4"
    using inverse4_left [OF d] inverse4_right [OF d] by blast
qed

lemma det4_scale_and_shift: "det4 (entry4r scale_and_shift) = 40"
  by (simp add: scale_and_shift_def cof_defs entry4r_def)

theorem setMatrix_normal_and_inverse_witness:
  "normalMatrix (setMatrix (blank [] []) (map Fin scale_and_shift))
     = map Fin [20, 0, 0,  0, 10, 0,  0, 0, 8] \<and>
   (\<exists>im. length im = 16 \<and>
         inverseMatrix (setMatrix (blank [] []) (map Fin scale_and_shift)) = map Fin im \<and>
         mat4_mul im scale_and_shift = identity4 \<and> mat4_mul scale_and_shift im = identity4)"
proof -
  have l: "length scale_and_shift = 16" by (simp add: scale_and_shift_def)
  have n: "length (normalMatrix (blank [] [])) = 9" by (simp add: blank_def Matrix3_def)
  have d: "det4 (entry4r scale_and_shift) \<noteq> 0" by (simp add: det4_scale_and_shift)
  have c: "cross [scale_and_shift ! 4, scale_and_shift ! 5, scale_and_shift ! 6]
                 [scale_and_shift ! 8, scale_and_shift ! 9, scale_and_shift ! 10]
           @ cross [scale_and_shift ! 8, scale_and_shift ! 9, scale_and_shift ! 10]
                   [scale_and_shift ! 0, scale_and_shift ! 1, scale_and_shift ! 2]
           @ cross [scale_and_shift ! 0, scale_and_shift ! 1, scale_and_shift ! 2]
                   [scale_and_shift ! 4, scale_and_shift ! 5, scale_and_shift ! 6]
           = [20, 0, 0,  0, 10, 0,  0, 0, 8]"
    by (simp add: scale_and_shift_def cross_def)
  note t = setMatrix_normal_and_inverse [OF l n]
  from t have "normalMatrix (setMatrix (blank [] []) (map Fin scale_and_shift))
     = map Fin (cross [scale_and_shift ! 4, scale_and_shift ! 5, scale_and_shift ! 6]
                 [scale_and_shift ! 8, scale_and_shift ! 9, scale_and_shift ! 10]
           @ cross [scale_and_shift ! 8, scale_and_shift ! 9, scale_and_shift ! 10]
                   [scale_and_shift ! 0, scale_and_shift ! 1, scale_and_shift ! 2]
           @ cross [scale_and_shift ! 0, scale_and_shift ! 1, scale_and_shift ! 2]
                   [scale_and_shift ! 4, scale_and_shift ! 5, scale_and_shift ! 6])"
    by blast
  then have "normalMatrix (setMatrix (blank [] []) (map Fin scale_and_shift))
     = map Fin [20, 0, 0,  0, 10, 0,  0, 0, 8]"
    unfolding c .
  with t d show ?thesis by blast
qed

lemma Volume_fields:
  "matrix (fst (Volume nm pth d a b c ai)) = Matrix4"
  "normalMatrix (fst (Volume nm pth d a b c ai)) = Matrix3"
  "inverseMatrix (fst (Volume nm pth d a b c ai)) = Matrix4"
  "boundingBox (fst (Volume nm pth d a b c ai)) = makeEmpty"
  "center (fst (Volume nm pth d a b c ai)) = Vector3 (Fin 0) (Fin 0) (Fin 0)"
  "nx (fst (Volume nm pth d a b c ai)) = or_one a"
  "ny (fst (Volume nm pth d a b c ai)) = or_one b"
  "nz (fst (Volume nm pth d a b c ai)) = or_one c"
  by (simp_all add: Volume_def setData_def Let_def setDataAtomindex_def blank_def
      split: prod.splits)

lemma setData_frame:
  "matrix (fst (setData v d a b c ai)) = matrix v"
  "normalMatrix (fst (setData v d a b c ai)) = normalMatrix v"
  "inverseMatrix (fst (setData v d a b c ai)) = inverseMatrix v"
  "boundingBox (fst (setData v d a b c ai)) = boundingBox v"
  "center (fst (setData v d a b c ai)) = center v"
  by (simp_all add: setData_def Let_def setDataAtomindex_def)

lemma setMatrix_extents:
  "nx (setMatrix v m) = nx v" "ny (setMatrix v m) = ny v" "nz (setMatrix v m) = nz v"
  by (simp_all add: setMatrix_def Let_def)

text \<open>
  Claim C4, as stated, on a freshly constructed volume with the extents 2, 2, 2: the
  derived values are not the ones that belong to its matrix and extents (the bounding box
  is the empty box, not the box of the grid corners).
\<close>

theorem fresh_volume_counterexample:
  "\<not> derived_consistent (fst (Volume [] [] (Some (replicate 8 (Fin 0))) (Some 2) (Some 2) (Some 2) None))"
proof
  assume a: "derived_consistent (fst (Volume [] [] (Some (replicate 8 (Fin 0))) (Some 2) (Some 2) (Some 2) None))"
  have m: "Matrix4 = map Fin [1, 0, 0, 0,  0, 1, 0, 0,  0, 0, 1, 0,  0, 0, 0, 1]"
    by (simp add: Matrix4_def)
  from a have "\<exists>ps. makeEmpty = bounding_box ps"
    by (auto simp: derived_consistent_def Volume_fields m reals_of_Fin simp del: list.map
        split: option.splits)
  then show False
    by (simp add: makeEmpty_def bounding_box_def vector3_of_def Vector3_def)
qed

text \<open>
  Claim C4, amended. Right after \<open>setMatrix\<close> with an invertible matrix of 16 finite
  elements, the normal matrix, the inverse matrix, the bounding box and the centre are the
  ones that belong to that matrix and to the grid extents of the volume at the time of the
  call. The constructor and \<open>setData\<close> do not compute them: a freshly constructed volume
  has the identity as matrix, normal matrix and inverse matrix, the empty bounding box and
  the centre (0, 0, 0), whatever its extents; and \<open>setData\<close> leaves all five as they were.
\<close>

theorem setMatrix_consistent:
  "(length rs = 16 \<and> length (normalMatrix v) = 9 \<and> det4 (entry4r rs) \<noteq> 0 \<longrightarrow>
      derived_consistent (setMatrix v (map Fin rs))) \<and>
   (let w = fst (Volume nm pth d a b c ai)
    in matrix w = Matrix4 \<and> normalMatrix w = Matrix3 \<and> inverseMatrix w = Matrix4 \<and>
       boundingBox w = makeEmpty \<and> center w = Vector3 (Fin 0) (Fin 0) (Fin 0)) \<and>
   (let w = fst (setData v d a b c ai)
    in matrix w = matrix v \<and> normalMatrix w = normalMatrix v \<and>
       inverseMatrix w = inverseMatrix v \<and> boundingBox w = boundingBox v \<and>
       center w = center v)"
proof (intro conjI impI)
  assume h: "length rs = 16 \<and> length (normalMatrix v) = 9 \<and> det4 (entry4r rs) \<noteq> 0"
  then have l: "length rs = 16" and n: "length (normalMatrix v) = 9"
    and d: "det4 (entry4r rs) \<noteq> 0" by simp_all
  have i: "inverseMatrix (setMatrix v (map Fin rs)) = map Fin (inverse4 rs)"
    by (simp add: setMatrix_inverseMatrix getInverse_Fin [OF l d])
  have li: "length (inverse4 rs) = 16"
    by (simp add: inverse4_def matrix4_of_def)
  show "derived_consistent (setMatrix v (map Fin rs))"
    unfolding derived_consistent_def
    by (simp add: setMatrix_matrix reals_of_Fin l i li inverse4_left [OF d] inverse4_right [OF d]
        setMatrix_normalMatrix [OF l n] setMatrix_boundingBox [OF l] setMatrix_center [OF l]
        setMatrix_extents)
qed (simp_all add: Volume_fields setData_frame Let_def)

theorem setMatrix_consistent_witness:
  "derived_consistent
     (setMatrix (fst (Volume [] [] (Some (replicate 8 (Fin 0))) (Some 2) (Some 2) (Some 2) None))
        (map Fin scale_and_shift))"
proof -
  have l: "length scale_and_shift = 16" by (simp add: scale_and_shift_def)
  have n: "length (normalMatrix (fst (Volume [] [] (Some (replicate 8 (Fin 0))) (Some 2) (Some 2)
             (Some 2) None))) = 9"
    by (simp add: Volume_fields Matrix3_def)
  have d: "det4 (entry4r scale_and_shift) \<noteq> 0" by (simp add: det4_scale_and_shift)
  show ?thesis
    using setMatrix_consistent [of scale_and_shift] l n d by blast
qed

text \<open>
  \<open>clone\<close> copies the matrix into a freshly constructed volume and none of the values
  derived from it.
\<close>

lemma clone_fields:
  "matrix (fst (clone v)) = matrix v"
  "normalMatrix (fst (clone v)) = Matrix3"
  "inverseMatrix (fst (clone v)) = Matrix4"
  "boundingBox (fst (clone v)) = makeEmpty"
  "center (fst (clone v)) = Vector3 (Fin 0) (Fin 0) (Fin 0)"
  by (simp_all add: clone_def Let_def case_prod_beta Volume_fields split: option.splits)

subsection \<open>The default isolevel\<close>

lemma plus_not_Undefined [simp]: "(a::jsval) + b \<noteq> Undefined"
  by (cases a; cases b) simp_all

lemma divide_not_Undefined [simp]: "(a::jsval) / b \<noteq> Undefined"
  by (cases a; cases b) simp_all

lemma sqrt_not_Undefined [simp]: "Math_sqrt a \<noteq> Undefined"
  by (cases a) simp_all

lemma getDataMean_again:
  "getDataMean (snd (getDataMean v)) = (fst (getDataMean v), snd (getDataMean v))"
  by (simp add: getDataMean_def Let_def)

lemma getDataRms_again:
  "getDataRms (snd (getDataRms v)) = (fst (getDataRms v), snd (getDataRms v))"
  by (simp add: getDataRms_def Let_def)








subsection \<open>Filtering\<close>

lemma take_update3_at:
  assumes "k + 3 \<le> length xs"
  shows "take (k + 3) (xs[k := a, k + 1 := b, k + 2 := c]) = take k xs @ [a, b, c]"
proof (rule nth_equalityI)
  show "length (take (k + 3) (xs[k := a, k + 1 := b, k + 2 := c])) = length (take k xs @ [a, b, c])"
    using assms by simp
next
  fix i assume "i < length (take (k + 3) (xs[k := a, k + 1 := b, k + 2 := c]))"
  then have i: "i < k + 3" by simp
  consider "i < k" | "i = k" | "i = k + 1" | "i = k + 2" using i by arith
  then show "take (k + 3) (xs[k := a, k + 1 := b, k + 2 := c]) ! i = (take k xs @ [a, b, c]) ! i"
    using assms by cases (simp_all add: nth_append)
qed

lemma take_update3:
  assumes "j * 3 + 3 \<le> length xs"
  shows "take (j * 3 + 3) (xs[j * 3 := a, j * 3 + 1 := b, j * 3 + 2 := c]) = take (j * 3) xs @ [a, b, c]"
  using assms by (rule take_update3_at)

lemma drop_update3:
  assumes "j * 3 + 3 \<le> k"
  shows "drop k (xs[j * 3 := a, j * 3 + 1 := b, j * 3 + 2 := c]) = drop k xs"
  using assms by simp

lemma take_update1:
  assumes "j < length xs"
  shows "take (Suc j) (xs[j := a]) = take j xs @ [a]"
  using assms by (simp add: take_Suc_conv_app_nth)

lemma filterLoop_Some:
  assumes "j + (n - i) \<le> length fd" and "(j + (n - i)) * 3 \<le> length fdp"
  shows "filterLoop d (Some dp) mn mx out n i j fdp fd
       = Inr (j + length (kept mn mx out d i n),
              take (j * 3) fdp @ concat (map (position_of dp) (kept mn mx out d i n))
                @ drop ((j + length (kept mn mx out d i n)) * 3) fdp,
              take j fd @ map (\<lambda>k. f32 (js_at d k)) (kept mn mx out d i n)
                @ drop (j + length (kept mn mx out d i n)) fd)"
  using assms
proof (induction "n - i" arbitrary: i j fdp fd)
  case 0
  then show ?case by (subst filterLoop.simps) (simp add: kept_def)
next
  case (Suc m)
  then have lt: "i < n" and m: "m = n - (i + 1)" by simp_all
  have up: "[i..<n] = i # [i + 1..<n]" using lt by (simp add: upt_conv_Cons)
  show ?case
  proof (cases "retained mn mx out (js_at d i)")
    case False
    have k: "kept mn mx out d i n = kept mn mx out d (i + 1) n"
      using False by (simp add: kept_def up)
    have "filterLoop d (Some dp) mn mx out n i j fdp fd
        = filterLoop d (Some dp) mn mx out n (i + 1) j fdp fd"
      using lt False by (subst filterLoop.simps) simp
    also have "\<dots> = Inr (j + length (kept mn mx out d (i + 1) n),
              take (j * 3) fdp @ concat (map (position_of dp) (kept mn mx out d (i + 1) n))
                @ drop ((j + length (kept mn mx out d (i + 1) n)) * 3) fdp,
              take j fd @ map (\<lambda>k. f32 (js_at d k)) (kept mn mx out d (i + 1) n)
                @ drop (j + length (kept mn mx out d (i + 1) n)) fd)"
      using Suc.prems lt by (intro Suc.hyps(1) m) simp_all
    finally show ?thesis by (simp only: k)
  next
    case True
    let ?fdp = "fdp[j * 3 + 0 := f32 (js_at dp (i * 3 + 0)),
                   j * 3 + 1 := f32 (js_at dp (i * 3 + 1)),
                   j * 3 + 2 := f32 (js_at dp (i * 3 + 2))]"
    let ?fd = "fd[j := f32 (js_at d i)]"
    let ?ks = "kept mn mx out d (i + 1) n"
    have k: "kept mn mx out d i n = i # ?ks"
      using True by (simp add: kept_def up)
    have j1: "j < length fd" and j3: "j * 3 + 3 \<le> length fdp"
      using Suc.prems lt by simp_all
    have "filterLoop d (Some dp) mn mx out n i j fdp fd
        = filterLoop d (Some dp) mn mx out n (i + 1) (j + 1) ?fdp ?fd"
      using lt True by (subst filterLoop.simps) simp
    also have "\<dots> = Inr (j + 1 + length ?ks,
              take ((j + 1) * 3) ?fdp @ concat (map (position_of dp) ?ks)
                @ drop ((j + 1 + length ?ks) * 3) ?fdp,
              take (j + 1) ?fd @ map (\<lambda>k. f32 (js_at d k)) ?ks
                @ drop (j + 1 + length ?ks) ?fd)"
      using Suc.prems lt by (intro Suc.hyps(1) m) simp_all
    also have "take ((j + 1) * 3) ?fdp = take (j * 3) fdp @ position_of dp i"
      using take_update3 [OF j3] by (simp add: position_of_def algebra_simps)
    also have "drop ((j + 1 + length ?ks) * 3) ?fdp = drop ((j + 1 + length ?ks) * 3) fdp"
      by simp
    also have "take (j + 1) ?fd = take j fd @ [f32 (js_at d i)]"
      using take_update1 [OF j1] by simp
    also have "drop (j + 1 + length ?ks) ?fd = drop (j + 1 + length ?ks) fd"
      by simp
    finally show ?thesis by (simp add: k)
  qed
qed

lemma retained_not_Undefined: "retained mn mx out x \<Longrightarrow> f32 x = x"
  by (cases x) (auto simp: retained_def)

lemma kept_all:
  "kept mn mx out d 0 (length d) = filter (\<lambda>k. retained mn mx out (d ! k)) [0..<length d]"
  unfolding kept_def by (rule filter_cong) (simp_all add: js_at_def)

lemma kept_values:
  "map (\<lambda>k. f32 (js_at d k)) (kept mn mx out d 0 (length d)) = filter (retained mn mx out) d"
proof -
  have "map (\<lambda>k. f32 (js_at d k)) (kept mn mx out d 0 (length d))
      = map (\<lambda>k. d ! k) (filter (\<lambda>k. retained mn mx out (d ! k)) [0..<length d])"
    unfolding kept_all by (rule map_cong) (auto simp: js_at_def retained_not_Undefined)
  also have "\<dots> = filter (retained mn mx out) (map (\<lambda>k. d ! k) [0..<length d])"
    by (simp add: filter_map o_def)
  also have "\<dots> = filter (retained mn mx out) d"
    by (simp add: map_nth)
  finally show ?thesis .
qed

lemma length_kept: "length (kept mn mx out d 0 (length d)) = length (filter (retained mn mx out) d)"
  using kept_values [of d mn mx out, THEN arg_cong, of length] by simp

lemma positioned_fields:
  "uu_data (positioned v) = uu_data v"
  "uu_minValue (positioned v) = uu_minValue v"
  "uu_maxValue (positioned v) = uu_maxValue v"
  "uu_outside (positioned v) = uu_outside v"
  "uu_dataBuffer (positioned v) = uu_dataBuffer v"
  "uu_dataPositionBuffer (positioned v) = uu_dataPositionBuffer v"
  "header (positioned v) = header v"
  "data (positioned v) = data v"
  by (simp_all add: positioned_def makeDataPosition_def Let_def)

lemma positioned_dataPosition:
  "uu_dataPosition (positioned v)
   = (if dataPosition v = None
      then Some (applyToVector3Array (applyMatrix4 (matrix v)) (grid (nx v) (ny v) (nz v)))
      else uu_dataPosition v)"
  by (simp add: positioned_def makeDataPosition_def Let_def)

lemma filterLoop_all:
  assumes "length fd = length d" and "length fdp = length d * 3"
  shows "filterLoop d (Some dp) mn mx out (length d) 0 0 fdp fd
       = Inr (length (filter (retained mn mx out) d),
              concat (map (position_of dp) (kept mn mx out d 0 (length d)))
                @ drop (length (filter (retained mn mx out) d) * 3) fdp,
              filter (retained mn mx out) d @ drop (length (filter (retained mn mx out) d)) fd)"
  using filterLoop_Some [of 0 "length d" 0 fd fdp d dp mn mx out] assms
  by (simp add: kept_values length_kept)

lemma length_positions:
  "length (concat (map (position_of dp) ks)) = length ks * 3"
  by (induction ks) (simp_all add: position_of_def)

lemma filterData_alt:
  "filterData v a b c
   = (case requested v a b c of (mn, mx, out) \<Rightarrow> filterData_core (positioned v) mn mx out)"
  unfolding filterData_def filterData_core_def requested_def positioned_def Let_def
  by simp

lemma core_skip:
  assumes "strict_eq mn (uu_minValue v) \<and> loose_eq mx (uu_maxValue v) \<and> Some out = uu_outside v"
  shows "filterData_core v mn mx out = Inr (Already_filtered, v)"
  using assms by (simp add: filterData_core_def Let_def)

lemma core_unfiltered:
  assumes "\<not> (strict_eq mn (uu_minValue v) \<and> loose_eq mx (uu_maxValue v) \<and> Some out = uu_outside v)"
      and "mn = NInf \<and> mx = PInf"
  shows "filterData_core v mn mx out
       = Inr (Unfiltered,
              v\<lparr>dataPosition := uu_dataPosition v, data := uu_data v,
                uu_minValue := mn, uu_maxValue := mx, uu_outside := Some out\<rparr>)"
  using assms by (simp add: filterData_core_def Let_def)

lemma core_loop:
  assumes "\<not> (strict_eq mn (uu_minValue v) \<and> loose_eq mx (uu_maxValue v) \<and> Some out = uu_outside v)"
      and "\<not> (mn = NInf \<and> mx = PInf)"
      and "buffers_ok v"
      and "filterLoop (uu_data v) (uu_dataPosition v) mn mx out (length (uu_data v)) 0 0
             (buffer_or (uu_dataPositionBuffer v) (length (uu_data v) * 3))
             (buffer_or (uu_dataBuffer v) (length (uu_data v)))
           = Inr (j, fdp, fd)"
      and "j * 3 \<le> length fdp" and "j \<le> length fd"
  shows "filterData_core v mn mx out
       = Inr (Filtered,
              v\<lparr>uu_dataPositionBuffer := Some fdp, uu_dataBuffer := Some fd,
                dataPosition := Some (take (j * 3) fdp), data := take j fd,
                uu_minValue := mn, uu_maxValue := mx, uu_outside := Some out\<rparr>)"
proof (cases "uu_dataBuffer v")
  case None
  then have p: "uu_dataPositionBuffer v = None"
    using assms(3) by (simp add: buffers_ok_def)
  show ?thesis
    using assms(1,2,4,5,6) None p
    by (simp add: filterData_core_def Let_def buffer_or_def)
next
  case (Some x)
  then obtain y where y: "uu_dataPositionBuffer v = Some y"
    using assms(3) by (auto simp: buffers_ok_def split: option.splits)
  show ?thesis
    using assms(1,2,4,5,6) Some y
    by (simp add: filterData_core_def Let_def buffer_or_def)
qed

lemma core_error:
  assumes "\<not> (strict_eq mn (uu_minValue v) \<and> loose_eq mx (uu_maxValue v) \<and> Some out = uu_outside v)"
      and "\<not> (mn = NInf \<and> mx = PInf)"
      and "buffers_ok v"
      and "filterLoop (uu_data v) (uu_dataPosition v) mn mx out (length (uu_data v)) 0 0
             (buffer_or (uu_dataPositionBuffer v) (length (uu_data v) * 3))
             (buffer_or (uu_dataBuffer v) (length (uu_data v)))
           = Inl e"
  shows "filterData_core v mn mx out = Inl e"
proof (cases "uu_dataBuffer v")
  case None
  then have p: "uu_dataPositionBuffer v = None"
    using assms(3) by (simp add: buffers_ok_def)
  show ?thesis
    using assms(1,2,4) None p
    by (simp add: filterData_core_def Let_def buffer_or_def)
next
  case (Some x)
  then obtain y where y: "uu_dataPositionBuffer v = Some y"
    using assms(3) by (auto simp: buffers_ok_def split: option.splits)
  show ?thesis
    using assms(1,2,4) Some y
    by (simp add: filterData_core_def Let_def buffer_or_def)
qed

lemma core_not_skip:
  assumes "\<not> (strict_eq mn (uu_minValue v) \<and> loose_eq mx (uu_maxValue v) \<and> Some out = uu_outside v)"
  shows "filterData_core v mn mx out \<noteq> Inr (Already_filtered, w)"
  using assms
  by (auto simp: filterData_core_def Let_def split: if_splits sum.splits prod.splits)

lemma core_recorded:
  assumes "filterData_core v mn mx out = Inr (p, w)" and "mn \<noteq> NaN" and "mn \<noteq> Undefined"
  shows "uu_minValue w = mn \<and> (mx \<noteq> NaN \<longrightarrow> uu_maxValue w = mx) \<and> uu_outside w = Some out \<and>
         header w = header v \<and> (p \<noteq> Already_filtered \<longrightarrow> uu_maxValue w = mx)"
  using assms
  by (auto simp: filterData_core_def Let_def strict_eq_def loose_eq_def
      split: if_splits sum.splits prod.splits)

lemma buffers_ok_positioned: "buffers_ok (positioned v) = buffers_ok v"
  unfolding buffers_ok_def positioned_fields ..

lemma buffer_or_length:
  assumes "buffers_ok v"
  shows "length (buffer_or (uu_dataBuffer v) (length (uu_data v))) = length (uu_data v)"
    and "length (buffer_or (uu_dataPositionBuffer v) (length (uu_data v) * 3)) = length (uu_data v) * 3"
  using assms
  by (auto simp: buffers_ok_def buffer_or_def Float32Array_def split: option.splits)

lemma requested_finite:
  "requested v (Fin a) (Fin b) outside = (Fin a, Fin b, or_false outside)"
  by (simp add: requested_def split: option.splits)

lemma filterData_general:
  assumes "requested v a b c = (mn, mx, out)"
      and "\<not> (strict_eq mn (uu_minValue v) \<and> loose_eq mx (uu_maxValue v) \<and> Some out = uu_outside v)"
      and "\<not> (mn = NInf \<and> mx = PInf)"
      and "dataPosition v = None \<or> uu_dataPosition v \<noteq> None"
      and "buffers_ok v"
  shows "\<exists>w dp fd fdp.
           filterData v a b c = Inr (Filtered, w) \<and>
           uu_data w = uu_data v \<and> buffers_ok w \<and>
           uu_minValue w = mn \<and> uu_maxValue w = mx \<and> uu_outside w = Some out \<and>
           header w = header v \<and>
           uu_dataPosition w = Some dp \<and> uu_dataPosition (positioned v) = Some dp \<and>
           data w = filter (retained mn mx out) (uu_data v) \<and>
           dataPosition w
             = Some (concat (map (position_of dp)
                 (kept mn mx out (uu_data v) 0 (length (uu_data v))))) \<and>
           length (the (dataPosition w)) = length (data w) * 3 \<and>
           uu_dataBuffer w = Some fd \<and> uu_dataPositionBuffer w = Some fdp \<and>
           length fd = length (uu_data v) \<and> length fdp = length (uu_data v) * 3 \<and>
           data w = take (length (data w)) fd \<and>
           dataPosition w = Some (take (length (data w) * 3) fdp) \<and>
           drop (length (data w)) fd
             = drop (length (data w)) (buffer_or (uu_dataBuffer v) (length (uu_data v))) \<and>
           drop (length (data w) * 3) fdp
             = drop (length (data w) * 3)
                 (buffer_or (uu_dataPositionBuffer v) (length (uu_data v) * 3))"
proof -
  let ?d = "uu_data v"
  let ?P = "retained mn mx out"
  let ?r = "length (filter ?P ?d)"
  let ?v1 = "positioned v"
  let ?ib = "buffer_or (uu_dataBuffer v) (length ?d)"
  let ?ip = "buffer_or (uu_dataPositionBuffer v) (length ?d * 3)"
  have "\<exists>dp. uu_dataPosition ?v1 = Some dp"
    using assms(4) by (cases "dataPosition v = None") (auto simp: positioned_dataPosition)
  then obtain dp where dp: "uu_dataPosition ?v1 = Some dp" ..
  let ?ps = "concat (map (position_of dp) (kept mn mx out ?d 0 (length ?d)))"
  let ?fd = "filter ?P ?d @ drop ?r ?ib"
  let ?fdp = "?ps @ drop (?r * 3) ?ip"
  let ?w = "?v1\<lparr>uu_dataPositionBuffer := Some ?fdp, uu_dataBuffer := Some ?fd,
                dataPosition := Some (take (?r * 3) ?fdp), data := take ?r ?fd,
                uu_minValue := mn, uu_maxValue := mx, uu_outside := Some out\<rparr>"
  have lps: "length ?ps = ?r * 3"
    by (simp add: length_positions length_kept)
  have rle: "?r \<le> length ?d" by simp
  have l0: "length ?ib = length ?d" "length ?ip = length ?d * 3"
    using buffer_or_length [OF assms(5)] by simp_all
  have lfd: "length ?fd = length ?d"
    using rle by (simp add: l0)
  have "?r * 3 \<le> length ?d * 3" using rle by simp
  then have lfdp: "length ?fdp = length ?d * 3"
    by (simp add: l0 lps)
  have nf: "\<not> (strict_eq mn (uu_minValue ?v1) \<and> loose_eq mx (uu_maxValue ?v1) \<and>
               Some out = uu_outside ?v1)"
    using assms(2) by (simp add: positioned_fields)
  have loop: "filterLoop (uu_data ?v1) (uu_dataPosition ?v1) mn mx out
                (length (uu_data ?v1)) 0 0
                (buffer_or (uu_dataPositionBuffer ?v1) (length (uu_data ?v1) * 3))
                (buffer_or (uu_dataBuffer ?v1) (length (uu_data ?v1)))
              = Inr (?r, ?fdp, ?fd)"
    unfolding positioned_fields dp by (rule filterLoop_all) (rule l0)+
  have core: "filterData_core ?v1 mn mx out = Inr (Filtered, ?w)"
    using core_loop [OF nf assms(3) _ loop] lfd lfdp rle
    by (simp add: buffers_ok_positioned assms(5))
  have f: "filterData v a b c = Inr (Filtered, ?w)"
    by (simp add: filterData_alt assms(1) core)
  have 1: "uu_data ?w = ?d" by (simp add: positioned_fields)
  have 0: "buffers_ok ?w" "uu_minValue ?w = mn" "uu_maxValue ?w = mx" "uu_outside ?w = Some out"
    "header ?w = header v"
    using lfd lfdp by (simp_all add: buffers_ok_def positioned_fields)
  have 2: "uu_dataPosition ?w = Some dp" by (simp add: dp)
  have 3: "data ?w = filter ?P ?d" by simp
  have 4: "dataPosition ?w = Some ?ps" by (simp add: lps)
  have 5: "uu_dataBuffer ?w = Some ?fd" "uu_dataPositionBuffer ?w = Some ?fdp" by simp_all
  have 6: "drop ?r ?fd = drop ?r ?ib" by simp
  have 7: "drop (?r * 3) ?fdp = drop (?r * 3) ?ip" by (simp add: lps)
  have 8: "filter ?P ?d = take ?r ?fd" by simp
  have 9: "Some ?ps = Some (take (?r * 3) ?fdp)" by (simp add: lps)
  show ?thesis
    apply (rule exI [of _ ?w], rule exI [of _ dp], rule exI [of _ ?fd], rule exI [of _ ?fdp])
    apply (simp only: f 0 1 2 3 4 5 dp lfd lfdp option.sel lps length_filter_conv_card [symmetric])
    using 6 7 8 9 lps apply simp
    done
qed

lemma retained_Fin:
  "retained (Fin a) (Fin b) out x
   = (if out then js_lt x (Fin a) \<or> js_lt (Fin b) x else js_le (Fin a) x \<and> js_le x (Fin b))"
  by (simp add: retained_def)

lemma or_false_eq: "or_false outside = (outside = Some True)"
  by (simp add: or_false_def split: option.splits)

lemma filter_Fin:
  "filter (\<lambda>x. if out then js_lt x (Fin a) \<or> js_lt (Fin b) x else js_le (Fin a) x \<and> js_le x (Fin b))
     (map Fin xs)
   = map Fin (filter (\<lambda>x. if out then x < a \<or> b < x else a \<le> x \<and> x \<le> b) xs)"
  by (induction xs) simp_all

lemma kept_explicit:
  "kept (Fin a) (Fin b) out d 0 (length d)
   = filter (\<lambda>i. if out then js_lt (d ! i) (Fin a) \<or> js_lt (Fin b) (d ! i)
                  else js_le (Fin a) (d ! i) \<and> js_le (d ! i) (Fin b)) [0..<length d]"
  unfolding kept_def by (rule filter_cong) (simp_all add: js_at_def retained_Fin)

lemma position_of_eq:
  "position_of dp = (\<lambda>i. [f32 (js_at dp (i * 3)), f32 (js_at dp (i * 3 + 1)), f32 (js_at dp (i * 3 + 2))])"
  by (rule ext) (simp add: position_of_def)

lemma buffer_or_eq: "buffer_or b n = (case b of None \<Rightarrow> Float32Array n | Some x \<Rightarrow> x)"
  by (simp add: buffer_or_def)

text \<open>
  The general path, with the test of the loop written out. For a filter triple of finite
  bounds that is not the triple applied last, on a volume whose position cache is usable
  (no positions were computed yet, or the cached positions are there) and whose two
  buffers, if allocated, have the size of the data: \<open>filterData\<close> takes the general path
  and returns; the filtered data are the samples \<open>v\<close> with
  \<^verbatim>\<open>(!outside && min <= v <= max) || (outside && (v < min || v > max))\<close>, in index order
  (for finite samples these are the comparisons of the reals); the filtered positions are
  the positions of the same samples, three numbers each, in the same order; both are views
  of the first \<open>retainedCount\<close> and \<open>3 * retainedCount\<close> elements of the two buffers,
  which keep their size and, beyond the views, their previous contents (zeros when they
  were allocated by this call).
\<close>

lemma filterData_usable:
  assumes "\<not> (uu_minValue v = Fin a \<and> uu_maxValue v = Fin b \<and> uu_outside v = Some (outside = Some True))"
      and "dataPosition v = None \<or> uu_dataPosition v \<noteq> None"
      and "buffers_ok v"
  shows "\<exists>w dp fd fdp.
           filterData v (Fin a) (Fin b) outside = Inr (Filtered, w) \<and>
           uu_data w = uu_data v \<and>
           uu_dataPosition w = Some dp \<and>
           dp = (if dataPosition v = None
                 then applyToVector3Array (applyMatrix4 (matrix v)) (grid (nx v) (ny v) (nz v))
                 else the (uu_dataPosition v)) \<and>
           data w
             = filter (\<lambda>x. if outside = Some True
                             then js_lt x (Fin a) \<or> js_lt (Fin b) x
                             else js_le (Fin a) x \<and> js_le x (Fin b)) (uu_data v) \<and>
           (\<forall>xs. uu_data v = map Fin xs \<longrightarrow>
              data w = map Fin (filter (\<lambda>x. if outside = Some True then x < a \<or> b < x
                                              else a \<le> x \<and> x \<le> b) xs)) \<and>
           dataPosition w
             = Some (concat (map (\<lambda>i. [f32 (js_at dp (i * 3)), f32 (js_at dp (i * 3 + 1)),
                                        f32 (js_at dp (i * 3 + 2))])
                 (filter (\<lambda>i. if outside = Some True
                                 then js_lt (uu_data v ! i) (Fin a) \<or> js_lt (Fin b) (uu_data v ! i)
                                 else js_le (Fin a) (uu_data v ! i) \<and> js_le (uu_data v ! i) (Fin b))
                    [0..<length (uu_data v)]))) \<and>
           length (the (dataPosition w)) = length (data w) * 3 \<and>
           uu_dataBuffer w = Some fd \<and> uu_dataPositionBuffer w = Some fdp \<and>
           length fd = length (uu_data v) \<and> length fdp = length (uu_data v) * 3 \<and>
           data w = take (length (data w)) fd \<and>
           dataPosition w = Some (take (length (data w) * 3) fdp) \<and>
           drop (length (data w)) fd
             = drop (length (data w))
                 (case uu_dataBuffer v of None \<Rightarrow> Float32Array (length (uu_data v)) | Some x \<Rightarrow> x) \<and>
           drop (length (data w) * 3) fdp
             = drop (length (data w) * 3)
                 (case uu_dataPositionBuffer v of
                    None \<Rightarrow> Float32Array (length (uu_data v) * 3) | Some x \<Rightarrow> x)"
proof -
  have nf: "\<not> (strict_eq (Fin a) (uu_minValue v) \<and> loose_eq (Fin b) (uu_maxValue v) \<and>
               Some (or_false outside) = uu_outside v)"
    using assms(1) by (auto simp: strict_eq_def loose_eq_def or_false_eq)
  have ns: "\<not> (Fin a = NInf \<and> Fin b = PInf)" by simp
  from filterData_general [OF requested_finite nf ns assms(2,3)]
  obtain w dp fd fdp where
    g: "filterData v (Fin a) (Fin b) outside = Inr (Filtered, w)"
       "uu_data w = uu_data v"
       "uu_dataPosition w = Some dp" "uu_dataPosition (positioned v) = Some dp"
       "data w = filter (retained (Fin a) (Fin b) (or_false outside)) (uu_data v)"
       "dataPosition w
             = Some (concat (map (position_of dp)
                 (kept (Fin a) (Fin b) (or_false outside) (uu_data v) 0 (length (uu_data v)))))"
       "length (the (dataPosition w)) = length (data w) * 3"
       "uu_dataBuffer w = Some fd" "uu_dataPositionBuffer w = Some fdp"
       "length fd = length (uu_data v)" "length fdp = length (uu_data v) * 3"
       "data w = take (length (data w)) fd"
       "dataPosition w = Some (take (length (data w) * 3) fdp)"
       "drop (length (data w)) fd
             = drop (length (data w)) (buffer_or (uu_dataBuffer v) (length (uu_data v)))"
       "drop (length (data w) * 3) fdp
             = drop (length (data w) * 3)
                 (buffer_or (uu_dataPositionBuffer v) (length (uu_data v) * 3))"
    by blast
  have dp: "dp = (if dataPosition v = None
                 then applyToVector3Array (applyMatrix4 (matrix v)) (grid (nx v) (ny v) (nz v))
                 else the (uu_dataPosition v))"
    using g(4) by (auto simp: positioned_dataPosition split: if_splits)
  have r: "retained (Fin a) (Fin b) (or_false outside)
           = (\<lambda>x. if outside = Some True
                             then js_lt x (Fin a) \<or> js_lt (Fin b) x
                             else js_le (Fin a) x \<and> js_le x (Fin b))"
    by (rule ext) (simp add: retained_Fin or_false_eq)
  have d: "data w
             = filter (\<lambda>x. if outside = Some True
                             then js_lt x (Fin a) \<or> js_lt (Fin b) x
                             else js_le (Fin a) x \<and> js_le x (Fin b)) (uu_data v)"
    using g(5) unfolding r .
  have x: "\<forall>xs. uu_data v = map Fin xs \<longrightarrow>
              data w = map Fin (filter (\<lambda>x. if outside = Some True then x < a \<or> b < x
                                              else a \<le> x \<and> x \<le> b) xs)"
    using d by (simp add: filter_Fin)
  have p: "dataPosition w
             = Some (concat (map (\<lambda>i. [f32 (js_at dp (i * 3)), f32 (js_at dp (i * 3 + 1)),
                                        f32 (js_at dp (i * 3 + 2))])
                 (filter (\<lambda>i. if outside = Some True
                                 then js_lt (uu_data v ! i) (Fin a) \<or> js_lt (Fin b) (uu_data v ! i)
                                 else js_le (Fin a) (uu_data v ! i) \<and> js_le (uu_data v ! i) (Fin b))
                    [0..<length (uu_data v)])))"
    using g(6) unfolding kept_explicit position_of_eq or_false_eq .
  show ?thesis
    apply (rule exI [of _ w], rule exI [of _ dp], rule exI [of _ fd], rule exI [of _ fdp])
    using g(1,2,3,7-13) dp d x p g(14,15) [unfolded buffer_or_eq]
    apply (intro conjI)
    apply assumption+
    done
qed


lemma Volume_fresh:
  "uu_data (fst (Volume nm pth d a b c ai)) = (case d of None \<Rightarrow> Float32Array 1 | Some x \<Rightarrow> x)"
  "data (fst (Volume nm pth d a b c ai)) = (case d of None \<Rightarrow> Float32Array 1 | Some x \<Rightarrow> x)"
  "dataPosition (fst (Volume nm pth d a b c ai)) = None"
  "uu_dataPosition (fst (Volume nm pth d a b c ai)) = None"
  "uu_dataBuffer (fst (Volume nm pth d a b c ai)) = None"
  "uu_dataPositionBuffer (fst (Volume nm pth d a b c ai)) = None"
  "uu_minValue (fst (Volume nm pth d a b c ai)) = Undefined"
  "uu_maxValue (fst (Volume nm pth d a b c ai)) = Undefined"
  "uu_outside (fst (Volume nm pth d a b c ai)) = None"
  "header (fst (Volume nm pth d a b c ai)) = None"
  "worker (fst (Volume nm pth d a b c ai)) = None"
  "workerPool (fst (Volume nm pth d a b c ai)) = None"
  by (simp_all add: Volume_def setData_def Let_def setDataAtomindex_def blank_def
      split: prod.splits)

lemma two_samples_positions:
  "uu_dataPosition (positioned two_samples) = Some [Fin 0, Fin 0, Fin 0, Fin 1, Fin 0, Fin 0]"
  by (simp add: positioned_dataPosition two_samples_def Volume_fresh Volume_fields or_one_def
      grid_def upt_rec Matrix4_def applyMatrix4_def js_at_def Vector3_def Vector3_toArray_def)

lemma three_samples_positions:
  "applyToVector3Array (applyMatrix4 Matrix4) (grid 3 (Suc 0) (Suc 0))
   = [Fin 0, Fin 0, Fin 0, Fin 1, Fin 0, Fin 0, Fin 2, Fin 0, Fin 0]"
  by (simp add: grid_def upt_rec Matrix4_def applyMatrix4_def js_at_def Vector3_def
      Vector3_toArray_def)

lemma filterData_usable_witness:
  "\<exists>w. filterData three_samples (Fin 4) (Fin 10) None = Inr (Filtered, w) \<and>
       data w = [Fin 4, Fin 5] \<and>
       dataPosition w = Some [Fin 1, Fin 0, Fin 0, Fin 2, Fin 0, Fin 0]"
proof -
  have 1: "\<not> (uu_minValue three_samples = Fin 4 \<and> uu_maxValue three_samples = Fin 10 \<and>
              uu_outside three_samples = Some (None = Some True))"
    by (simp add: three_samples_def Volume_fresh)
  have 2: "dataPosition three_samples = None \<or> uu_dataPosition three_samples \<noteq> None"
    by (simp add: three_samples_def Volume_fresh)
  have 3: "buffers_ok three_samples"
    by (simp add: buffers_ok_def three_samples_def Volume_fresh)
  have d: "uu_data three_samples = [Fin 3, Fin 4, Fin 5]"
    by (simp add: three_samples_def Volume_fresh)
  have m: "matrix three_samples = Matrix4" "nx three_samples = 3" "ny three_samples = 1"
    "nz three_samples = 1" "dataPosition three_samples = None"
    by (simp_all add: three_samples_def Volume_fields Volume_fresh or_one_def)
  from filterData_usable [OF 1 2 3]
  obtain w dp where w: "filterData three_samples (Fin 4) (Fin 10) None = Inr (Filtered, w)"
    and dp: "dp = (if dataPosition three_samples = None
                 then applyToVector3Array (applyMatrix4 (matrix three_samples))
                        (grid (nx three_samples) (ny three_samples) (nz three_samples))
                 else the (uu_dataPosition three_samples))"
    and dw: "data w
             = filter (\<lambda>x. if None = Some True
                             then js_lt x (Fin 4) \<or> js_lt (Fin 10) x
                             else js_le (Fin 4) x \<and> js_le x (Fin 10)) (uu_data three_samples)"
    and pw: "dataPosition w
             = Some (concat (map (\<lambda>i. [f32 (js_at dp (i * 3)), f32 (js_at dp (i * 3 + 1)),
                                        f32 (js_at dp (i * 3 + 2))])
                 (filter (\<lambda>i. if None = Some True
                                 then js_lt (uu_data three_samples ! i) (Fin 4) \<or>
                                      js_lt (Fin 10) (uu_data three_samples ! i)
                                 else js_le (Fin 4) (uu_data three_samples ! i) \<and>
                                      js_le (uu_data three_samples ! i) (Fin 10))
                    [0..<length (uu_data three_samples)])))"
    by blast
  have "dp = [Fin 0, Fin 0, Fin 0, Fin 1, Fin 0, Fin 0, Fin 2, Fin 0, Fin 0]"
    using dp by (simp add: m three_samples_positions)
  then have "dataPosition w = Some [Fin 1, Fin 0, Fin 0, Fin 2, Fin 0, Fin 0]"
    using pw by (simp add: d upt_rec js_at_def)
  moreover have "data w = [Fin 4, Fin 5]"
    using dw by (simp add: d)
  ultimately show ?thesis using w by blast
qed

lemma three_samples_filtered:
  "map_sum id fst (filterData three_samples (Fin 0) (Fin 10) None) = Inr Filtered \<and>
   map_sum id (data \<circ> snd) (filterData three_samples (Fin 0) (Fin 10) None)
     = Inr [Fin 3, Fin 4, Fin 5] \<and>
   map_sum id (dataPosition \<circ> snd) (filterData three_samples (Fin 0) (Fin 10) None)
     = Inr (Some [Fin 0, Fin 0, Fin 0, Fin 1, Fin 0, Fin 0, Fin 2, Fin 0, Fin 0])"
proof -
  have 1: "\<not> (uu_minValue three_samples = Fin 0 \<and> uu_maxValue three_samples = Fin 10 \<and>
              uu_outside three_samples = Some (None = Some True))"
    by (simp add: three_samples_def Volume_fresh)
  have 2: "dataPosition three_samples = None \<or> uu_dataPosition three_samples \<noteq> None"
    by (simp add: three_samples_def Volume_fresh)
  have 3: "buffers_ok three_samples"
    by (simp add: buffers_ok_def three_samples_def Volume_fresh)
  have d: "uu_data three_samples = [Fin 3, Fin 4, Fin 5]"
    by (simp add: three_samples_def Volume_fresh)
  have m: "matrix three_samples = Matrix4" "nx three_samples = 3" "ny three_samples = 1"
    "nz three_samples = 1" "dataPosition three_samples = None"
    by (simp_all add: three_samples_def Volume_fields Volume_fresh or_one_def)
  from filterData_usable [OF 1 2 3]
  obtain w dp where w: "filterData three_samples (Fin 0) (Fin 10) None = Inr (Filtered, w)"
    and dp: "dp = (if dataPosition three_samples = None
                 then applyToVector3Array (applyMatrix4 (matrix three_samples))
                        (grid (nx three_samples) (ny three_samples) (nz three_samples))
                 else the (uu_dataPosition three_samples))"
    and dw: "data w
             = filter (\<lambda>x. if None = Some True
                             then js_lt x (Fin 0) \<or> js_lt (Fin 10) x
                             else js_le (Fin 0) x \<and> js_le x (Fin 10)) (uu_data three_samples)"
    and pw: "dataPosition w
             = Some (concat (map (\<lambda>i. [f32 (js_at dp (i * 3)), f32 (js_at dp (i * 3 + 1)),
                                        f32 (js_at dp (i * 3 + 2))])
                 (filter (\<lambda>i. if None = Some True
                                 then js_lt (uu_data three_samples ! i) (Fin 0) \<or>
                                      js_lt (Fin 10) (uu_data three_samples ! i)
                                 else js_le (Fin 0) (uu_data three_samples ! i) \<and>
                                      js_le (uu_data three_samples ! i) (Fin 10))
                    [0..<length (uu_data three_samples)])))"
    by blast
  have "dp = [Fin 0, Fin 0, Fin 0, Fin 1, Fin 0, Fin 0, Fin 2, Fin 0, Fin 0]"
    using dp by (simp add: m three_samples_positions)
  then have "dataPosition w = Some [Fin 0, Fin 0, Fin 0, Fin 1, Fin 0, Fin 0, Fin 2, Fin 0, Fin 0]"
    using pw by (simp add: d upt_rec js_at_def)
  moreover have "data w = [Fin 3, Fin 4, Fin 5]"
    using dw by (simp add: d)
  ultimately show ?thesis by (simp add: w)
qed

lemma requested_min: "fst (requested v a b c) \<noteq> NaN \<and> fst (requested v a b c) \<noteq> Undefined"
  by (cases a) (auto simp: requested_def Let_def split: option.splits)

lemma requested_header: "header w = header v \<Longrightarrow> requested w a b c = requested v a b c"
  by (simp add: requested_def)

lemma core_recorded_all:
  assumes "filterData_core v mn mx out = Inr (p, w)" and "mn \<noteq> NaN" and "mn \<noteq> Undefined"
  shows "uu_minValue w = mn" "uu_maxValue w = mx" "uu_outside w = Some out" "header w = header v"
  using assms
  by (auto simp: filterData_core_def Let_def strict_eq_def loose_eq_def
      split: if_splits sum.splits prod.splits)

lemma filterData_recorded:
  assumes "filterData v a b c = Inr (p, w)"
  shows "(uu_minValue w, uu_maxValue w, uu_outside w)
         = (fst (requested v a b c), fst (snd (requested v a b c)), Some (snd (snd (requested v a b c))))"
    and "header w = header v"
proof -
  obtain mn mx out where r: "requested v a b c = (mn, mx, out)"
    by (cases "requested v a b c") auto
  have m: "mn \<noteq> NaN" "mn \<noteq> Undefined" using requested_min [of v a b c] by (simp_all add: r)
  have c: "filterData_core (positioned v) mn mx out = Inr (p, w)"
    using assms by (simp add: filterData_alt r)
  show "(uu_minValue w, uu_maxValue w, uu_outside w)
         = (fst (requested v a b c), fst (snd (requested v a b c)), Some (snd (snd (requested v a b c))))"
    using core_recorded_all [OF c m] by (simp add: r)
  show "header w = header v"
    using core_recorded_all [OF c m] by (simp add: positioned_fields)
qed

lemma filterData_skips_iff:
  assumes "uu_minValue w = mn" "uu_maxValue w = mx" "uu_outside w = Some out"
      and "mn \<noteq> NaN"
  shows "(\<exists>w2. filterData w a b c = Inr (Already_filtered, w2))
         \<longleftrightarrow> (requested w a b c = (mn, mx, out) \<and> mx \<noteq> NaN)"
    and "filterData w a b c = Inr (Already_filtered, w2) \<Longrightarrow> w2 = positioned w"
proof -
  obtain mn2 mx2 out2 where r: "requested w a b c = (mn2, mx2, out2)"
    by (cases "requested w a b c") auto
  let ?cond = "strict_eq mn2 (uu_minValue (positioned w)) \<and>
               loose_eq mx2 (uu_maxValue (positioned w)) \<and> Some out2 = uu_outside (positioned w)"
  have c: "?cond \<longleftrightarrow> (mn2 = mn \<and> mx2 = mx \<and> out2 = out \<and> mx \<noteq> NaN)"
    using assms by (auto simp: strict_eq_def loose_eq_def positioned_fields)
  show "(\<exists>w2. filterData w a b c = Inr (Already_filtered, w2))
         \<longleftrightarrow> (requested w a b c = (mn, mx, out) \<and> mx \<noteq> NaN)"
  proof (cases ?cond)
    case True
    then show ?thesis
      using core_skip [OF True] c by (simp add: filterData_alt r)
  next
    case False
    then show ?thesis
      using core_not_skip [OF False] c by (simp add: filterData_alt r)
  qed
  show "filterData w a b c = Inr (Already_filtered, w2) \<Longrightarrow> w2 = positioned w"
  proof (cases ?cond)
    case True
    assume "filterData w a b c = Inr (Already_filtered, w2)"
    then show ?thesis
      using core_skip [OF True] by (simp add: filterData_alt r)
  next
    case False
    assume "filterData w a b c = Inr (Already_filtered, w2)"
    then show ?thesis
      using core_not_skip [OF False] by (simp add: filterData_alt r)
  qed
qed

lemma core_positions:
  assumes "filterData_core v mn mx out = Inr (p, w)"
      and "dataPosition v \<noteq> None" and "uu_dataPosition v \<noteq> None"
  shows "dataPosition w \<noteq> None"
  using assms
  by (auto simp: filterData_core_def Let_def split: if_splits sum.splits prod.splits)

lemma filterData_leaves_positions:
  assumes "filterData v a b c = Inr (p, w)"
      and "dataPosition v = None \<or> uu_dataPosition v \<noteq> None"
  shows "dataPosition w \<noteq> None"
proof -
  obtain mn mx out where r: "requested v a b c = (mn, mx, out)"
    by (cases "requested v a b c") auto
  have c: "filterData_core (positioned v) mn mx out = Inr (p, w)"
    using assms(1) by (simp add: filterData_alt r)
  have 1: "dataPosition (positioned v) \<noteq> None"
    by (simp add: positioned_def makeDataPosition_def Let_def)
  have 2: "uu_dataPosition (positioned v) \<noteq> None"
    using assms(2) by (auto simp: positioned_dataPosition)
  show ?thesis by (rule core_positions [OF c 1 2])
qed

text \<open>
  Claim C6, amended. Of two consecutive calls of \<open>filterData\<close>, the first of which
  returned, the second returns early if and only if its triple after the defaults is the
  triple of the first call after the defaults and the upper bound is not \<^verbatim>\<open>NaN\<close> (the
  source compares it with \<^verbatim>\<open>==\<close>, which \<^verbatim>\<open>NaN\<close> never passes). A call that returns
  early leaves the data view, the buffers and the recorded triple as they were; it leaves
  the whole volume as it was when \<^verbatim>\<open>dataPosition\<close> is defined at the call, and otherwise
  differs from it only by the positions that \<open>makeDataPosition\<close> computes before the
  triples are compared. \<^verbatim>\<open>dataPosition\<close> is defined after a call that returned
  whenever, before that call, it was undefined or \<^verbatim>\<open>__dataPosition\<close> was defined. In
  particular, for such a volume, a call with the same arguments as the one before it, the
  upper bound not \<^verbatim>\<open>NaN\<close>, returns early and leaves the volume, and so both views, as
  the first call left them.
\<close>

theorem filterData_skip_iff_same_triple:
  assumes "filterData v a b c = Inr (p, w)"
  shows "((\<exists>w2. filterData w a2 b2 c2 = Inr (Already_filtered, w2))
            \<longleftrightarrow> (requested w a2 b2 c2 = requested v a b c \<and>
                 fst (snd (requested v a b c)) \<noteq> NaN)) \<and>
         (\<forall>w2. filterData w a2 b2 c2 = Inr (Already_filtered, w2) \<longrightarrow>
               w2 = (if dataPosition w = None then makeDataPosition w else w) \<and>
               w2 = w\<lparr>dataPosition := dataPosition w2, uu_dataPosition := uu_dataPosition w2\<rparr> \<and>
               data w2 = data w \<and>
               (dataPosition w \<noteq> None \<longrightarrow> w2 = w)) \<and>
         (fst (snd (requested v a b c)) \<noteq> NaN \<longrightarrow>
            filterData w a b c
              = Inr (Already_filtered, if dataPosition w = None then makeDataPosition w else w)) \<and>
         (dataPosition v = None \<or> uu_dataPosition v \<noteq> None \<longrightarrow> dataPosition w \<noteq> None) \<and>
         (fst (snd (requested v a b c)) \<noteq> NaN \<and>
          (dataPosition v = None \<or> uu_dataPosition v \<noteq> None) \<longrightarrow>
            filterData w a b c = Inr (Already_filtered, w))"
proof -
  obtain mn mx out where r: "requested v a b c = (mn, mx, out)"
    by (cases "requested v a b c") auto
  have m: "mn \<noteq> NaN" using requested_min [of v a b c] by (simp add: r)
  have f: "uu_minValue w = mn" "uu_maxValue w = mx" "uu_outside w = Some out"
    using filterData_recorded(1) [OF assms] by (simp_all add: r)
  have h: "header w = header v" by (rule filterData_recorded(2) [OF assms])
  note s = filterData_skips_iff [OF f m]
  have 1: "(\<exists>w2. filterData w a2 b2 c2 = Inr (Already_filtered, w2))
            \<longleftrightarrow> (requested w a2 b2 c2 = requested v a b c \<and>
                 fst (snd (requested v a b c)) \<noteq> NaN)"
    using s(1) [of a2 b2 c2] by (simp add: r)
  have 2: "\<forall>w2. filterData w a2 b2 c2 = Inr (Already_filtered, w2) \<longrightarrow>
               w2 = (if dataPosition w = None then makeDataPosition w else w) \<and>
               w2 = w\<lparr>dataPosition := dataPosition w2, uu_dataPosition := uu_dataPosition w2\<rparr> \<and>
               data w2 = data w \<and>
               (dataPosition w \<noteq> None \<longrightarrow> w2 = w)"
  proof (intro allI impI)
    fix w2 assume "filterData w a2 b2 c2 = Inr (Already_filtered, w2)"
    then have e: "w2 = positioned w" by (rule s(2))
    show "w2 = (if dataPosition w = None then makeDataPosition w else w) \<and>
          w2 = w\<lparr>dataPosition := dataPosition w2, uu_dataPosition := uu_dataPosition w2\<rparr> \<and>
          data w2 = data w \<and>
          (dataPosition w \<noteq> None \<longrightarrow> w2 = w)"
      unfolding e by (simp add: positioned_def makeDataPosition_def Let_def)
  qed
  have 3: "fst (snd (requested v a b c)) \<noteq> NaN \<longrightarrow>
            filterData w a b c
              = Inr (Already_filtered, if dataPosition w = None then makeDataPosition w else w)"
  proof
    assume n: "fst (snd (requested v a b c)) \<noteq> NaN"
    have "requested w a b c = (mn, mx, out) \<and> mx \<noteq> NaN"
      using n by (simp add: requested_header [OF h] r)
    then obtain w2 where w2: "filterData w a b c = Inr (Already_filtered, w2)"
      using s(1) [of a b c] by blast
    then show "filterData w a b c
              = Inr (Already_filtered, if dataPosition w = None then makeDataPosition w else w)"
      using s(2) [OF w2] by (simp add: positioned_def)
  qed
  have 4: "dataPosition v = None \<or> uu_dataPosition v \<noteq> None \<longrightarrow> dataPosition w \<noteq> None"
    using filterData_leaves_positions [OF assms] by blast
  have 5: "fst (snd (requested v a b c)) \<noteq> NaN \<and>
          (dataPosition v = None \<or> uu_dataPosition v \<noteq> None) \<longrightarrow>
            filterData w a b c = Inr (Already_filtered, w)"
    using 3 4 by auto
  show ?thesis using 1 2 3 4 5 by blast
qed


lemma two_samples_unfiltered:
  "filterData two_samples Undefined Undefined None
   = Inr (Unfiltered,
          (positioned two_samples)\<lparr>dataPosition := uu_dataPosition (positioned two_samples),
             data := uu_data (positioned two_samples),
             uu_minValue := NInf, uu_maxValue := PInf, uu_outside := Some False\<rparr>)"
proof -
  have r: "requested two_samples Undefined Undefined None = (NInf, PInf, False)"
    by (simp add: requested_def two_samples_def Volume_fresh or_false_def)
  have n: "\<not> (strict_eq NInf (uu_minValue (positioned two_samples)) \<and>
              loose_eq PInf (uu_maxValue (positioned two_samples)) \<and>
              Some False = uu_outside (positioned two_samples))"
    by (simp add: positioned_fields two_samples_def Volume_fresh strict_eq_def)
  show ?thesis
    using core_unfiltered [OF n] by (simp add: filterData_alt r)
qed

lemma unfiltered_two_eq:
  "filterData two_samples Undefined Undefined None = Inr (Unfiltered, unfiltered_two)"
  by (simp add: unfiltered_two_def two_samples_unfiltered)

theorem filterData_skip_iff_same_triple_witness:
  "filterData unfiltered_two Undefined Undefined None = Inr (Already_filtered, unfiltered_two) \<and>
   (\<exists>w2. filterData unfiltered_two Undefined PInf (Some False) = Inr (Already_filtered, w2)) \<and>
   \<not> (\<exists>w2. filterData unfiltered_two (Fin 0) Undefined None = Inr (Already_filtered, w2))"
proof -
  have h: "header unfiltered_two = None"
    using filterData_recorded(2) [OF unfiltered_two_eq]
    by (simp add: two_samples_def Volume_fresh)
  have u: "dataPosition two_samples = None"
    by (simp add: two_samples_def Volume_fresh)
  have r: "requested two_samples Undefined Undefined None = (NInf, PInf, False)"
    by (simp add: requested_def two_samples_def Volume_fresh or_false_def)
  have r1: "requested unfiltered_two Undefined PInf (Some False) = (NInf, PInf, False)"
    by (simp add: requested_def h or_false_def)
  have r2: "requested unfiltered_two (Fin 0) Undefined None = (Fin 0, PInf, False)"
    by (simp add: requested_def h or_false_def)
  note t1 = filterData_skip_iff_same_triple
              [OF unfiltered_two_eq, of Undefined PInf "Some False"]
  note t2 = filterData_skip_iff_same_triple
              [OF unfiltered_two_eq, of "Fin 0" Undefined None]
  from t1 have "fst (snd (requested two_samples Undefined Undefined None)) \<noteq> NaN \<and>
          (dataPosition two_samples = None \<or> uu_dataPosition two_samples \<noteq> None) \<longrightarrow>
            filterData unfiltered_two Undefined Undefined None
              = Inr (Already_filtered, unfiltered_two)"
    by blast
  then have a: "filterData unfiltered_two Undefined Undefined None
             = Inr (Already_filtered, unfiltered_two)"
    by (simp add: r u)
  have b: "\<exists>w2. filterData unfiltered_two Undefined PInf (Some False) = Inr (Already_filtered, w2)"
    using t1 by (simp add: r r1)
  have c: "\<not> (\<exists>w2. filterData unfiltered_two (Fin 0) Undefined None = Inr (Already_filtered, w2))"
    using t2 by (simp add: r r2)
  show ?thesis using a b c by blast
qed

lemma filterData_NaN_max:
  assumes "header v = None" and "dataPosition v = None \<or> uu_dataPosition v \<noteq> None"
      and "buffers_ok v"
  shows "\<exists>w. filterData v (Fin a) NaN None = Inr (Filtered, w) \<and> header w = None \<and>
             uu_dataPosition w \<noteq> None \<and> buffers_ok w"
proof -
  have r: "requested v (Fin a) NaN None = (Fin a, NaN, False)"
    by (simp add: requested_def assms(1) or_false_def)
  have n: "\<not> (strict_eq (Fin a) (uu_minValue v) \<and> loose_eq NaN (uu_maxValue v) \<and>
              Some False = uu_outside v)"
    by (simp add: loose_eq_def strict_eq_def)
  have f: "\<not> (Fin a = NInf \<and> NaN = PInf)" by simp
  from filterData_general [OF r n f assms(2,3)] assms(1)
  show ?thesis by auto
qed

lemma setData_caches:
  "dataPosition (fst (setData v d a b c ai)) = dataPosition v"
  "uu_dataPosition (fst (setData v d a b c ai)) = None"
  "uu_dataBuffer (fst (setData v d a b c ai)) = None"
  "uu_dataPositionBuffer (fst (setData v d a b c ai)) = None"
  "uu_minValue (fst (setData v d a b c ai)) = Undefined"
  "uu_maxValue (fst (setData v d a b c ai)) = Undefined"
  "uu_outside (fst (setData v d a b c ai)) = uu_outside v"
  "header (fst (setData v d a b c ai)) = header v"
  "mc (fst (setData v d a b c ai)) = None"
  by (simp_all add: setData_def Let_def setDataAtomindex_def)

lemma filterLoop_TypeError:
  assumes "0 < n" and "retained mn mx out (js_at d 0)"
  shows "filterLoop d None mn mx out n 0 0 fdp fd = Inl TypeError"
  using assms by (subst filterLoop.simps) simp

lemma stale_dataPosition:
  assumes "dataPosition v \<noteq> None"
  shows "dataPosition (fst (setData v d a b c ai)) = dataPosition v"
    and "uu_dataPosition (fst (setData v d a b c ai)) = None"
    and "positioned (fst (setData v d a b c ai)) = fst (setData v d a b c ai)"
  using assms by (auto simp: setData_caches positioned_def)

lemma stale_filterData:
  assumes "dataPosition v \<noteq> None" and "header v = None"
      and "retained (Fin lo) (Fin hi) False x"
  shows "filterData (fst (setData v (Some (x # xs)) a b c ai)) (Fin lo) (Fin hi) None = Inl TypeError"
proof -
  let ?w = "fst (setData v (Some (x # xs)) a b c ai)"
  have p: "positioned ?w = ?w" by (rule stale_dataPosition(3) [OF assms(1)])
  have r: "requested ?w (Fin lo) (Fin hi) None = (Fin lo, Fin hi, False)"
    by (simp add: requested_def setData_caches assms(2) or_false_def)
  have n: "\<not> (strict_eq (Fin lo) (uu_minValue ?w) \<and> loose_eq (Fin hi) (uu_maxValue ?w) \<and>
              Some False = uu_outside ?w)"
    by (simp add: setData_caches strict_eq_def)
  have f: "\<not> (Fin lo = NInf \<and> Fin hi = PInf)" by simp
  have b: "buffers_ok ?w" by (simp add: buffers_ok_def setData_caches)
  have l: "filterLoop (uu_data ?w) (uu_dataPosition ?w) (Fin lo) (Fin hi) False
             (length (uu_data ?w)) 0 0
             (buffer_or (uu_dataPositionBuffer ?w) (length (uu_data ?w) * 3))
             (buffer_or (uu_dataBuffer ?w) (length (uu_data ?w)))
           = Inl TypeError"
    unfolding setData_caches setData_fields
    by (rule filterLoop_TypeError) (simp_all add: js_at_def assms(3))
  show ?thesis
    using core_error [OF n f b l] by (simp add: filterData_alt r p)
qed

lemma unfiltered_two_fields:
  "dataPosition unfiltered_two = Some [Fin 0, Fin 0, Fin 0, Fin 1, Fin 0, Fin 0]"
  "header unfiltered_two = None"
proof -
  show "dataPosition unfiltered_two = Some [Fin 0, Fin 0, Fin 0, Fin 1, Fin 0, Fin 0]"
    by (simp add: unfiltered_two_def two_samples_unfiltered two_samples_positions)
  have "header unfiltered_two = header two_samples"
    by (simp add: unfiltered_two_def two_samples_unfiltered positioned_fields)
  then show "header unfiltered_two = None"
    by (simp add: two_samples_def Volume_fresh)
qed

lemma replaced_two_matrix: "matrix replaced_two = Matrix4"
proof -
  have "matrix replaced_two = matrix two_samples"
    by (simp add: replaced_two_def setData_frame unfiltered_two_def two_samples_unfiltered
        positioned_def makeDataPosition_def Let_def)
  then show ?thesis
    by (simp add: two_samples_def Volume_fields)
qed

lemma replaced_two_unfiltered:
  "filterData replaced_two Undefined Undefined None
   = Inr (Unfiltered,
          replaced_two\<lparr>dataPosition := None, data := uu_data replaced_two,
             uu_minValue := NInf, uu_maxValue := PInf, uu_outside := Some False\<rparr>)"
proof -
  have 1: "dataPosition replaced_two \<noteq> None"
    by (simp add: replaced_two_def setData_caches unfiltered_two_fields)
  have 2: "uu_dataPosition replaced_two = None"
    by (simp add: replaced_two_def setData_caches)
  have p: "positioned replaced_two = replaced_two"
    by (simp add: positioned_def 1)
  have r: "requested replaced_two Undefined Undefined None = (NInf, PInf, False)"
    by (simp add: requested_def replaced_two_def setData_caches unfiltered_two_fields or_false_def)
  have n: "\<not> (strict_eq NInf (uu_minValue replaced_two) \<and> loose_eq PInf (uu_maxValue replaced_two) \<and>
              Some False = uu_outside replaced_two)"
    by (simp add: replaced_two_def setData_caches strict_eq_def)
  show ?thesis
    using core_unfiltered [OF n] by (simp add: filterData_alt r p 2)
qed

lemma unfiltered_replaced_fields:
  "dataPosition unfiltered_replaced = None"
  "header unfiltered_replaced = None"
  "uu_minValue unfiltered_replaced = NInf"
  "uu_maxValue unfiltered_replaced = PInf"
  "uu_outside unfiltered_replaced = Some False"
  "matrix unfiltered_replaced = Matrix4"
  "nx unfiltered_replaced = 3" "ny unfiltered_replaced = 1" "nz unfiltered_replaced = 1"
proof -
  note m = replaced_two_matrix
  have h: "header replaced_two = None"
    by (simp add: replaced_two_def setData_caches unfiltered_two_fields)
  have n: "nx replaced_two = 3" "ny replaced_two = 1" "nz replaced_two = 1"
    by (simp_all add: replaced_two_def setData_fields or_one_def)
  show "dataPosition unfiltered_replaced = None"
    "header unfiltered_replaced = None"
    "uu_minValue unfiltered_replaced = NInf"
    "uu_maxValue unfiltered_replaced = PInf"
    "uu_outside unfiltered_replaced = Some False"
    "matrix unfiltered_replaced = Matrix4"
    "nx unfiltered_replaced = 3" "ny unfiltered_replaced = 1" "nz unfiltered_replaced = 1"
    by (simp_all add: unfiltered_replaced_def replaced_two_unfiltered m h n)
qed

lemma unfiltered_replaced_again:
  "filterData unfiltered_replaced Undefined Undefined None
   = Inr (Already_filtered, makeDataPosition unfiltered_replaced)"
proof -
  have r: "requested unfiltered_replaced Undefined Undefined None = (NInf, PInf, False)"
    by (simp add: requested_def unfiltered_replaced_fields or_false_def)
  have p: "positioned unfiltered_replaced = makeDataPosition unfiltered_replaced"
    by (simp add: positioned_def unfiltered_replaced_fields)
  have c: "strict_eq NInf (uu_minValue (positioned unfiltered_replaced)) \<and>
           loose_eq PInf (uu_maxValue (positioned unfiltered_replaced)) \<and>
           Some False = uu_outside (positioned unfiltered_replaced)"
    by (simp add: positioned_fields unfiltered_replaced_fields strict_eq_def loose_eq_def)
  show ?thesis
    using core_skip [OF c] by (simp add: filterData_alt r p)
qed

text \<open>
  Claim C6, as stated, at two pairs of consecutive calls. Two calls
  \<^verbatim>\<open>filterData( 0, NaN )\<close>: the triples are the same and the second call does not return
  early; it runs the loop again. Two calls \<^verbatim>\<open>filterData()\<close> on the volume whose data were
  replaced after an earlier \<open>filterData\<close>: the first leaves \<^verbatim>\<open>dataPosition\<close> undefined,
  the second returns early and yet leaves the nine numbers of three positions there, so
  the two calls do not yield the same views.
\<close>

theorem filterData_skip_counterexample:
  "map_sum id fst (filterData two_samples (Fin 0) NaN None) = Inr Filtered \<and>
   map_sum id fst (filterData (snd (projr (filterData two_samples (Fin 0) NaN None))) (Fin 0) NaN None)
     = Inr Filtered \<and>
   map_sum id fst (filterData replaced_two Undefined Undefined None) = Inr Unfiltered \<and>
   dataPosition unfiltered_replaced = None \<and>
   map_sum id fst (filterData unfiltered_replaced Undefined Undefined None) = Inr Already_filtered \<and>
   map_sum id (dataPosition \<circ> snd) (filterData unfiltered_replaced Undefined Undefined None)
     = Inr (Some [Fin 0, Fin 0, Fin 0, Fin 1, Fin 0, Fin 0, Fin 2, Fin 0, Fin 0])"
proof -
  have "\<exists>w. filterData two_samples (Fin 0) NaN None = Inr (Filtered, w) \<and> header w = None \<and>
             uu_dataPosition w \<noteq> None \<and> buffers_ok w"
    by (rule filterData_NaN_max) (simp_all add: two_samples_def Volume_fresh buffers_ok_def)
  then obtain w where w: "filterData two_samples (Fin 0) NaN None = Inr (Filtered, w)"
    and h: "header w = None" and p: "uu_dataPosition w \<noteq> None" and b: "buffers_ok w"
    by blast
  obtain w2 where w2: "filterData w (Fin 0) NaN None = Inr (Filtered, w2)"
    using filterData_NaN_max [OF h _ b, of 0] p by blast
  have 1: "map_sum id fst (filterData two_samples (Fin 0) NaN None) = Inr Filtered \<and>
     map_sum id fst (filterData (snd (projr (filterData two_samples (Fin 0) NaN None))) (Fin 0) NaN None)
       = Inr Filtered"
    by (simp add: w w2)
  have 2: "dataPosition (makeDataPosition unfiltered_replaced)
           = Some [Fin 0, Fin 0, Fin 0, Fin 1, Fin 0, Fin 0, Fin 2, Fin 0, Fin 0]"
    by (simp add: makeDataPosition_def Let_def unfiltered_replaced_fields three_samples_positions)
  show ?thesis
    using 1 2 by (simp add: replaced_two_unfiltered unfiltered_replaced_again
        unfiltered_replaced_fields)
qed

text \<open>
  Claim C3 on the code: after \<open>filterData\<close> and then \<open>setData\<close> with three samples on a
  3x1x1 grid, \<^verbatim>\<open>dataPosition\<close> still holds the two positions of the old grid while
  \<^verbatim>\<open>__dataPosition\<close> is gone. The next \<open>filterData\<close> does not compute the positions:
  with bounds that retain a sample it throws a \<^verbatim>\<open>TypeError\<close>, and without bounds it
  returns with \<^verbatim>\<open>dataPosition\<close> undefined.
\<close>

theorem setData_keeps_stale_positions:
  "dataPosition replaced_two = Some [Fin 0, Fin 0, Fin 0, Fin 1, Fin 0, Fin 0] \<and>
   uu_dataPosition replaced_two = None \<and>
   nx replaced_two = 3 \<and> uu_data replaced_two = [Fin 3, Fin 4, Fin 5] \<and>
   filterData replaced_two (Fin 0) (Fin 10) None = Inl TypeError \<and>
   map_sum id (dataPosition \<circ> snd) (filterData replaced_two Undefined Undefined None) = Inr None"
proof -
  have 1: "dataPosition replaced_two = Some [Fin 0, Fin 0, Fin 0, Fin 1, Fin 0, Fin 0]"
    by (simp add: replaced_two_def setData_caches unfiltered_two_fields)
  have 2: "uu_dataPosition replaced_two = None"
    by (simp add: replaced_two_def setData_caches)
  have 3: "nx replaced_two = 3" "uu_data replaced_two = [Fin 3, Fin 4, Fin 5]"
    by (simp_all add: replaced_two_def setData_fields or_one_def)
  have 4: "filterData replaced_two (Fin 0) (Fin 10) None = Inl TypeError"
    unfolding replaced_two_def
    by (rule stale_filterData) (simp_all add: unfiltered_two_fields retained_def)
  have p: "positioned replaced_two = replaced_two"
    by (simp add: positioned_def 1)
  have r: "requested replaced_two Undefined Undefined None = (NInf, PInf, False)"
    by (simp add: requested_def replaced_two_def setData_caches unfiltered_two_fields or_false_def)
  have n: "\<not> (strict_eq NInf (uu_minValue replaced_two) \<and> loose_eq PInf (uu_maxValue replaced_two) \<and>
              Some False = uu_outside replaced_two)"
    by (simp add: replaced_two_def setData_caches strict_eq_def)
  have 5: "map_sum id (dataPosition \<circ> snd) (filterData replaced_two Undefined Undefined None)
             = Inr None"
    using core_unfiltered [OF n] by (simp add: filterData_alt r p 2)
  show ?thesis using 1 2 3 4 5 by simp
qed

text \<open>
  Claim C7 on the code. \<open>replaced_two\<close> and \<open>three_samples\<close> hold the same three samples
  3, 4 and 5 on the same 3x1x1 grid with the same transform; only their history differs:
  the data of the first were set by \<open>setData\<close> after an earlier \<open>filterData\<close>. With the
  finite triple (0, 10, false) all three samples pass the test. On the fresh volume
  \<open>filterData\<close> retains the three samples and their positions, as the claim says; on the
  other it throws a \<^verbatim>\<open>TypeError\<close> at the first retained sample, because \<open>setData\<close> left
  \<^verbatim>\<open>dataPosition\<close> in place and the positions are not computed again.
\<close>

theorem filterData_general_path_after_setData:
  "uu_data replaced_two = [Fin 3, Fin 4, Fin 5] \<and> uu_data three_samples = [Fin 3, Fin 4, Fin 5] \<and>
   (nx replaced_two, ny replaced_two, nz replaced_two) = (3, 1, 1) \<and>
   (nx three_samples, ny three_samples, nz three_samples) = (3, 1, 1) \<and>
   matrix replaced_two = matrix three_samples \<and>
   filterData replaced_two (Fin 0) (Fin 10) None = Inl TypeError \<and>
   map_sum id (data \<circ> snd) (filterData three_samples (Fin 0) (Fin 10) None)
     = Inr [Fin 3, Fin 4, Fin 5] \<and>
   map_sum id (dataPosition \<circ> snd) (filterData three_samples (Fin 0) (Fin 10) None)
     = Inr (Some [Fin 0, Fin 0, Fin 0, Fin 1, Fin 0, Fin 0, Fin 2, Fin 0, Fin 0])"
proof -
  have 1: "uu_data replaced_two = [Fin 3, Fin 4, Fin 5]"
    "(nx replaced_two, ny replaced_two, nz replaced_two) = (3, 1, 1)"
    by (simp_all add: replaced_two_def setData_fields or_one_def)
  have 2: "uu_data three_samples = [Fin 3, Fin 4, Fin 5]"
    "(nx three_samples, ny three_samples, nz three_samples) = (3, 1, 1)"
    "matrix three_samples = Matrix4"
    by (simp_all add: three_samples_def Volume_fresh Volume_fields or_one_def)
  have 3: "matrix replaced_two = matrix three_samples"
    by (simp add: 2 replaced_two_matrix)
  have 4: "filterData replaced_two (Fin 0) (Fin 10) None = Inl TypeError"
    unfolding replaced_two_def
    by (rule stale_filterData) (simp_all add: unfiltered_two_fields retained_def)
  show ?thesis
    using 1 2(1,2) 3 4 three_samples_filtered by simp
qed


subsection \<open>Workers and the serialized form\<close>

lemma setData_workerPool:
  "workerPool (fst (setData v d a b c ai)) = workerPool v"
  "worker (fst (setData v d a b c ai)) = map_option terminate (worker v)"
  by (simp_all add: setData_def Let_def setDataAtomindex_def)

lemma dispose_workerPool:
  "workerPool v = Some p \<Longrightarrow> map_option pool_terminated (workerPool (fst (dispose v))) = Some True"
  by (simp add: dispose_def terminate_def)

lemma getSurfaceWorker_pool:
  "map_option pool_terminated (workerPool v) \<noteq> Some True \<Longrightarrow>
   map_option pool_terminated (workerPool (snd (getSurfaceWorker ext True v isolevel smooth c s)))
     = Some False"
  "worker (snd (getSurfaceWorker ext True v isolevel smooth c s)) = worker v"
  by (auto simp: getSurfaceWorker_def Let_def case_prod_beta WorkerPool_def getValueForSigma_def
      getDataMean_def getDataRms_def split: option.splits)

text \<open>
  Claim C2 on the code: a volume that has posted a surface request to a worker has a pool
  in \<^verbatim>\<open>workerPool\<close> and nothing in \<^verbatim>\<open>worker\<close>. \<open>setData\<close> terminates what is in
  \<^verbatim>\<open>worker\<close> and leaves \<^verbatim>\<open>workerPool\<close> alone: after it the pool is still running.
  \<open>dispose\<close> does terminate the pool.
\<close>

theorem setData_leaves_pool_running:
  "map_option pool_terminated (workerPool posted_two) = Some False \<and>
   worker posted_two = None \<and>
   map_option pool_terminated
     (workerPool (fst (setData posted_two (Some [Fin 3, Fin 4, Fin 5]) (Some 3) None None None)))
     = Some False \<and>
   map_option pool_terminated (workerPool (fst (dispose posted_two))) = Some True"
proof -
  have 1: "map_option pool_terminated (workerPool posted_two) = Some False"
    unfolding posted_two_def
    by (rule getSurfaceWorker_pool) (simp add: two_samples_def Volume_fresh)
  have 2: "worker posted_two = None"
    by (simp add: posted_two_def getSurfaceWorker_pool two_samples_def Volume_fresh)
  from 1 obtain p where p: "workerPool posted_two = Some p" by auto
  show ?thesis
    using 1 2 dispose_workerPool [OF p] by (simp add: setData_workerPool)
qed


text \<open>
  A worker of the pool that was sent the volume before \<open>setData\<close> is sent no new
  snapshot by the request that follows it.
\<close>

lemma getValueForSigma_workerPool:
  "workerPool (snd (getValueForSigma v s)) = workerPool v"
  by (simp add: getValueForSigma_def getDataMean_def getDataRms_def Let_def case_prod_beta)

lemma no_snapshot_after_setData:
  assumes "workerPool v = Some p" and "pool_postCount p ! pool_next p \<noteq> 0"
  shows "\<exists>m. fst (getSurfaceWorker ext True (fst (setData v d a b c ai)) isolevel smooth ce s)
               = Posted (pool_next p) m \<and> msg_vol m = None"
  using assms
  by (simp add: getSurfaceWorker_def Let_def case_prod_beta setData_workerPool
      getValueForSigma_workerPool)

lemma Box3_set_arrays:
  "Box3_set (Obj_Array a) (Obj_Array b)
   = \<lparr>bmin = Vector3 Undefined Undefined Undefined, bmax = Vector3 Undefined Undefined Undefined\<rparr>"
  by (simp add: Box3_set_def Vector3_copy_def)

lemma fromJSON_boundingBox:
  "boundingBox (fst (fromJSON t (toJSON v)))
   = \<lparr>bmin = Vector3 Undefined Undefined Undefined, bmax = Vector3 Undefined Undefined Undefined\<rparr>"
  by (simp add: fromJSON_def Let_def case_prod_beta Box3_set_arrays split: option.splits)

lemma fromJSON_toJSON_fields:
  assumes "nx v \<noteq> 0" "ny v \<noteq> 0" "nz v \<noteq> 0"
  shows "uu_data (fst (fromJSON t (toJSON v))) = uu_data v"
    and "data (fst (fromJSON t (toJSON v))) = uu_data v"
    and "nx (fst (fromJSON t (toJSON v))) = nx v"
    and "ny (fst (fromJSON t (toJSON v))) = ny v"
    and "nz (fst (fromJSON t (toJSON v))) = nz v"
    and "uu_dataAtomindex (fst (fromJSON t (toJSON v))) = uu_dataAtomindex v"
    and "matrix (fst (fromJSON t (toJSON v))) = matrix v"
    and "normalMatrix (fst (fromJSON t (toJSON v))) = normalMatrix v"
    and "inverseMatrix (fst (fromJSON t (toJSON v))) = inverseMatrix v"
    and "center (fst (fromJSON t (toJSON v))) = center v"
    and "name (fst (fromJSON t (toJSON v))) = name v"
    and "path (fst (fromJSON t (toJSON v))) = path v"
  using assms
  by (simp_all add: fromJSON_def toJSON_def Let_def case_prod_beta setData_fields setData_frame
      or_one_def setData_def setDataAtomindex_def Vector3_fromArray_def Vector3_toArray_def
      Vector3_def js_at_def split: option.splits)

lemma scaled_two_boundingBox:
  "boundingBox scaled_two
   = \<lparr>bmin = Vector3 (Fin 1) (Fin 2) (Fin 3), bmax = Vector3 (Fin 3) (Fin 2) (Fin 3)\<rparr>"
proof -
  have l: "length scale_and_shift = 16" by (simp add: scale_and_shift_def)
  have e: "nx two_samples = 2" "ny two_samples = 1" "nz two_samples = 1"
    by (simp_all add: two_samples_def Volume_fields or_one_def)
  show ?thesis
    unfolding scaled_two_def setMatrix_boundingBox [OF l] e
    by (simp add: world_corners_def grid_corners_def transform_point_def entry4r_def
        scale_and_shift_def bounding_box_def px_def py_def pz_def vector3_of_def)
qed

text \<open>
  Claim C1 on the code: for the volume of two samples with the example transform, whose
  bounding box reaches from (1, 2, 3) to (3, 2, 3), \<open>fromJSON\<close> of \<open>toJSON\<close> has a
  bounding box whose six coordinates are \<^verbatim>\<open>undefined\<close>, while the centre is the same.
\<close>

theorem fromJSON_loses_boundingBox:
  "boundingBox scaled_two
     = \<lparr>bmin = Vector3 (Fin 1) (Fin 2) (Fin 3), bmax = Vector3 (Fin 3) (Fin 2) (Fin 3)\<rparr> \<and>
   boundingBox (fst (fromJSON (fst (Volume [] [] None None None None None)) (toJSON scaled_two)))
     = \<lparr>bmin = Vector3 Undefined Undefined Undefined,
        bmax = Vector3 Undefined Undefined Undefined\<rparr> \<and>
   center (fst (fromJSON (fst (Volume [] [] None None None None None)) (toJSON scaled_two)))
     = center scaled_two"
proof -
  have e: "nx scaled_two \<noteq> 0" "ny scaled_two \<noteq> 0" "nz scaled_two \<noteq> 0"
    by (simp_all add: scaled_two_def setMatrix_extents two_samples_def Volume_fields or_one_def)
  show ?thesis
    by (simp add: scaled_two_boundingBox fromJSON_boundingBox fromJSON_toJSON_fields(10) [OF e])
qed

end
